theory Spec2Isabelle
  imports Complex_Main "HOL-Library.Sublist"
begin

section \<open>The VGG notebook \<^verbatim>\<open>lesson_4_VGG.ipynb\<close>\<close>

text \<open>
  The notebook is a straight-line Python script over numpy and Keras. Its top-level
  constants and symbolic tensors become HOL constants of the same names, its calls that
  compute on data or act on the model become one function \<open>notebook\<close> that threads the
  execution trace, and exceptions become values of \<open>error + 'a\<close>.
\<close>

subsection \<open>Errors\<close>

datatype error =
  ValueError | IndexError | KeyError | RuntimeError | TypeError | InvalidArgumentError

definition bind :: "error + 'a \<Rightarrow> ('a \<Rightarrow> error + 'b) \<Rightarrow> error + 'b" where
  "bind m f = (case m of Inl e \<Rightarrow> Inl e | Inr a \<Rightarrow> f a)"

subsection \<open>Configuration cells\<close>

text \<open>
  \<^verbatim>\<open>
  batch_size  = 128
  num_classes = 10
  epochs      = 14

  img_rows, img_cols, n_channels = 32, 32, 3
  input_shape = (img_rows, img_cols, n_channels)
  \<close>
\<close>

definition batch_size :: nat where "batch_size = 128"
definition num_classes :: nat where "num_classes = 10"
definition epochs :: nat where "epochs = 14"

definition img_rows :: nat where "img_rows = 32"
definition img_cols :: nat where "img_cols = 32"
definition n_channels :: nat where "n_channels = 3"
definition input_shape :: "nat list" where
  "input_shape = [img_rows, img_cols, n_channels]"

subsection \<open>Layers and symbolic tensors\<close>

datatype activation = Relu | Softmax
datatype padding = Same | Valid

text \<open>
  The layer constructors the notebook calls, with the arguments it passes: \<open>Conv2D\<close> takes
  \<open>filters\<close>, \<open>kernel_size\<close>, \<open>activation\<close> and \<open>padding\<close> (strides stay at Keras's default
  \<open>(1,1)\<close>), \<open>MaxPooling2D\<close> its \<open>pool_size\<close> (the stride defaults to the pool size, the
  padding to \<open>valid\<close>), \<open>Dense\<close> its units and activation, \<open>Dropout\<close> its rate.
\<close>

datatype layer =
    InputLayer "nat list" string
  | Conv2D nat "nat \<times> nat" activation padding
  | MaxPooling2D "nat \<times> nat"
  | Flatten
  | Dense nat activation
  | Dropout rat

text \<open>
  A symbolic Keras tensor is known by its history: the layers that lead from the input to
  it, in order. Every layer of the notebook has one inbound tensor, so the history is a
  list. \<open>Input(shape, name=...)\<close> starts a history, calling a layer on a tensor extends it.
\<close>

type_synonym tensor = "layer list"

definition Input :: "nat list \<Rightarrow> string \<Rightarrow> tensor" where
  "Input shp name = [InputLayer shp name]"

definition call :: "layer \<Rightarrow> tensor \<Rightarrow> tensor" where
  "call l t = t @ [l]"

datatype loss = Categorical_crossentropy
datatype optimizer = Adam rat
datatype metric = Accuracy | AUC | Precision | Recall

record compile_cfg =
  cfg_loss :: loss
  cfg_optimizer :: optimizer
  cfg_metrics :: "metric list"

text \<open>
  The model object: its layers, what \<open>compile\<close> stored in it (nothing before the call),
  and the number of epochs its weights have been trained for.
\<close>

record keras_model =
  layers :: "layer list"
  compiled :: "compile_cfg option"
  epochs_trained :: nat

text \<open>
  \<open>Model(inputs=[i], outputs=[out])\<close> walks back from the output to the input; Keras
  raises a \<open>ValueError\<close> (graph disconnected) when the output does not descend from the
  given input.
\<close>

definition Model :: "tensor \<Rightarrow> tensor \<Rightarrow> error + keras_model" where
  "Model i out =
     (if i \<noteq> [] \<and> take (length i) out = i
      then Inr \<lparr>layers = out, compiled = None, epochs_trained = 0\<rparr>
      else Inl ValueError)"

subsection \<open>The topology cell\<close>

definition inputs :: tensor where
  "inputs = Input input_shape ''input_images''"

definition conv1 :: tensor where
  "conv1 = call (Conv2D 64 (3,3) Relu Same) inputs"
definition conv2 :: tensor where
  "conv2 = call (Conv2D 64 (3,3) Relu Same) conv1"

definition max2 :: tensor where
  "max2 = call (MaxPooling2D (2,2)) conv2"

definition conv3 :: tensor where
  "conv3 = call (Conv2D 96 (3,3) Relu Same) max2"
definition conv4 :: tensor where
  "conv4 = call (Conv2D 96 (3,3) Relu Same) conv3"

definition max3 :: tensor where
  "max3 = call (MaxPooling2D (2,2)) conv4"

definition conv5 :: tensor where
  "conv5 = call (Conv2D 192 (3,3) Relu Same) max3"
definition conv6 :: tensor where
  "conv6 = call (Conv2D 192 (3,3) Relu Same) conv5"
definition conv7 :: tensor where
  "conv7 = call (Conv2D 192 (1,1) Relu Same) conv6"

definition max4 :: tensor where
  "max4 = call (MaxPooling2D (2,2)) conv7"

definition conv8 :: tensor where
  "conv8 = call (Conv2D 224 (3,3) Relu Same) max4"
definition conv9 :: tensor where
  "conv9 = call (Conv2D 224 (3,3) Relu Same) conv8"
definition conv10 :: tensor where
  "conv10 = call (Conv2D 224 (1,1) Relu Same) conv9"

definition layer11 :: tensor where
  "layer11 = call Flatten conv10"

definition layer12 :: tensor where
  "layer12 = call (Dense 1024 Relu) layer11"

definition layer13 :: tensor where
  "layer13 = call (Dropout (1/2)) layer12"

definition layer14 :: tensor where
  "layer14 = call (Dense 1024 Relu) layer13"

definition layer15 :: tensor where
  "layer15 = call (Dense num_classes Softmax) layer14"

definition model :: "error + keras_model" where
  "model = Model inputs layer15"

subsection \<open>Shapes and parameter counts\<close>

text \<open>
  What Keras computes for the layers above, per sample (the batch axis left out). A
  convolution with \<open>same\<close> padding and stride 1 keeps the grid and has one kernel of
  \<open>kh * kw * c_in\<close> weights and one bias per filter; a \<open>valid\<close> pooling with stride equal
  to its window needs the window to fit and yields \<open>(h - ph) div ph + 1\<close> rows; a dense
  layer has one weight per input feature and one bias per unit. A layer called on a
  tensor of the wrong rank, or a window larger than the grid, is a \<open>ValueError\<close>.
\<close>

fun output_shape :: "layer \<Rightarrow> nat list \<Rightarrow> error + nat list" where
  "output_shape (InputLayer shp name) s = Inr shp"
| "output_shape (Conv2D f (kh, kw) a Same) [h, w, c] = Inr [h, w, f]"
| "output_shape (Conv2D f (kh, kw) a Valid) [h, w, c] =
     (if kh \<le> h \<and> kw \<le> w then Inr [h - kh + 1, w - kw + 1, f] else Inl ValueError)"
| "output_shape (MaxPooling2D (ph, pw)) [h, w, c] =
     (if 0 < ph \<and> 0 < pw \<and> ph \<le> h \<and> pw \<le> w
      then Inr [(h - ph) div ph + 1, (w - pw) div pw + 1, c] else Inl ValueError)"
| "output_shape Flatten s = Inr [prod_list s]"
| "output_shape (Dense u a) [] = Inl ValueError"
| "output_shape (Dense u a) (d # s) = Inr (butlast (d # s) @ [u])"
| "output_shape (Dropout r) s = Inr s"
| "output_shape l s = Inl ValueError"

fun trainable_params :: "layer \<Rightarrow> nat list \<Rightarrow> nat" where
  "trainable_params (Conv2D f (kh, kw) a p) s = (kh * kw * last s + 1) * f"
| "trainable_params (Dense u a) s = (last s + 1) * u"
| "trainable_params l s = 0"

fun non_trainable_params :: "layer \<Rightarrow> nat list \<Rightarrow> nat" where
  "non_trainable_params l s = 0"

text \<open>
  One row of \<open>model.summary()\<close> per layer: its kind, its output shape and its number of
  parameters. The rows are computed front to back, each layer on the shape before it.
\<close>

fun layer_kind :: "layer \<Rightarrow> string" where
  "layer_kind (InputLayer shp name) = ''InputLayer''"
| "layer_kind (Conv2D f k a p) = ''Conv2D''"
| "layer_kind (MaxPooling2D k) = ''MaxPooling2D''"
| "layer_kind Flatten = ''Flatten''"
| "layer_kind (Dense u a) = ''Dense''"
| "layer_kind (Dropout r) = ''Dropout''"

fun summary_rows :: "layer list \<Rightarrow> nat list \<Rightarrow> error + (string \<times> nat list \<times> nat) list" where
  "summary_rows [] s = Inr []"
| "summary_rows (l # ls) s =
     bind (output_shape l s) (\<lambda>s'.
     bind (summary_rows ls s') (\<lambda>rows.
     Inr ((layer_kind l, s', trainable_params l s + non_trainable_params l s) # rows)))"

fun count_trainable :: "layer list \<Rightarrow> nat list \<Rightarrow> error + nat" where
  "count_trainable [] s = Inr 0"
| "count_trainable (l # ls) s =
     bind (output_shape l s) (\<lambda>s'.
     bind (count_trainable ls s') (\<lambda>n. Inr (trainable_params l s + n)))"

fun count_non_trainable :: "layer list \<Rightarrow> nat list \<Rightarrow> error + nat" where
  "count_non_trainable [] s = Inr 0"
| "count_non_trainable (l # ls) s =
     bind (output_shape l s) (\<lambda>s'.
     bind (count_non_trainable ls s') (\<lambda>n. Inr (non_trainable_params l s + n)))"

text \<open>
  The table the notebook recorded as the output of its \<open>model.summary()\<close> cell, and the
  three totals printed under it.
\<close>

definition recorded_summary :: "(string \<times> nat list \<times> nat) list" where
  "recorded_summary =
     [(''InputLayer'', [32, 32, 3], 0),
      (''Conv2D'', [32, 32, 64], 1792),
      (''Conv2D'', [32, 32, 64], 36928),
      (''MaxPooling2D'', [16, 16, 64], 0),
      (''Conv2D'', [16, 16, 96], 55392),
      (''Conv2D'', [16, 16, 96], 83040),
      (''MaxPooling2D'', [8, 8, 96], 0),
      (''Conv2D'', [8, 8, 192], 166080),
      (''Conv2D'', [8, 8, 192], 331968),
      (''Conv2D'', [8, 8, 192], 37056),
      (''MaxPooling2D'', [4, 4, 192], 0),
      (''Conv2D'', [4, 4, 224], 387296),
      (''Conv2D'', [4, 4, 224], 451808),
      (''Conv2D'', [4, 4, 224], 50400),
      (''Flatten'', [3584], 0),
      (''Dense'', [1024], 3671040),
      (''Dropout'', [1024], 0),
      (''Dense'', [1024], 1049600),
      (''Dense'', [10], 10250)]"

definition recorded_total_params :: nat where "recorded_total_params = 6332650"
definition recorded_trainable_params :: nat where "recorded_trainable_params = 6332650"
definition recorded_non_trainable_params :: nat where "recorded_non_trainable_params = 0"

subsection \<open>Arrays: the maximum, the division, the arg-max\<close>

text \<open>
  The elements of an image array, image by image: each image is the list of its pixels
  in storage order. The maximum and the division below work on the elements; the shape
  of the array is added further down.
\<close>

type_synonym image = "nat list"

text \<open>
  \<open>x.max()\<close> is the largest element of the whole array; numpy raises a \<open>ValueError\<close> on an
  array with no element.
\<close>

definition amax :: "image list \<Rightarrow> error + nat" where
  "amax x = (case concat x of [] \<Rightarrow> Inl ValueError | p # ps \<Rightarrow> Inr (fold max ps p))"

text \<open>
  The quotient of two integers is a float. numpy does not raise on a zero divisor: the
  element becomes \<open>nan\<close> (for \<open>0 / 0\<close>, the \<open>invalid\<close> floating-point error) or \<open>inf\<close> (for a
  positive numerator, the \<open>divide\<close> error), with a warning. A finite quotient is the
  exact one rounded to a float by \<open>fl\<close>, the rounding of the floating-point format.
\<close>

datatype npfloat = Finite rat | PosInf | NaN

definition true_divide :: "(rat \<Rightarrow> rat) \<Rightarrow> nat \<Rightarrow> nat \<Rightarrow> npfloat" where
  "true_divide fl p m =
     (if m = 0 then (if p = 0 then NaN else PosInf)
      else Finite (fl (rat_of_nat p / rat_of_nat m)))"

definition divide_arr :: "(rat \<Rightarrow> rat) \<Rightarrow> image list \<Rightarrow> nat \<Rightarrow> npfloat list list" where
  "divide_arr fl x m = map (map (\<lambda>p. true_divide fl p m)) x"

text \<open>The expression \<open>x / x_train.max()\<close> of the normalisation statements.\<close>

definition scale :: "(rat \<Rightarrow> rat) \<Rightarrow> image list \<Rightarrow> image list \<Rightarrow> error + npfloat list list" where
  "scale fl x x_train = bind (amax x_train) (\<lambda>m. Inr (divide_arr fl x m))"

fun fp_error :: "npfloat \<Rightarrow> bool" where
  "fp_error (Finite q) = False"
| "fp_error PosInf = True"
| "fp_error NaN = True"

fun in_unit_interval :: "npfloat \<Rightarrow> bool" where
  "in_unit_interval (Finite q) = (0 \<le> q \<and> q \<le> 1)"
| "in_unit_interval PosInf = False"
| "in_unit_interval NaN = False"

fun non_negative :: "npfloat \<Rightarrow> bool" where
  "non_negative (Finite q) = (0 \<le> q)"
| "non_negative PosInf = True"
| "non_negative NaN = False"

text \<open>
  \<open>a.argmax()\<close> is the index of the first largest element of the flattened array; numpy
  raises a \<open>ValueError\<close> on an empty one. The loop keeps the best element seen and its
  index, replaces them when the next element is not below or equal to the best one, and
  stops at a \<open>nan\<close>: every comparison with \<open>nan\<close> is false, so the first \<open>nan\<close> wins.
\<close>

fun np_le :: "npfloat \<Rightarrow> npfloat \<Rightarrow> bool" where
  "np_le (Finite a) (Finite b) = (a \<le> b)"
| "np_le (Finite a) PosInf = True"
| "np_le PosInf PosInf = True"
| "np_le PosInf (Finite b) = False"
| "np_le NaN b = False"
| "np_le a NaN = False"

fun argmax_from :: "npfloat list \<Rightarrow> nat \<Rightarrow> npfloat \<Rightarrow> nat \<Rightarrow> nat" where
  "argmax_from [] i best k = k"
| "argmax_from (x # xs) i best k =
     (if best = NaN then k
      else if \<not> np_le x best then argmax_from xs (i + 1) x i
      else argmax_from xs (i + 1) best k)"

definition argmax :: "npfloat list \<Rightarrow> error + nat" where
  "argmax a = (case a of [] \<Rightarrow> Inl ValueError | x # xs \<Rightarrow> Inr (argmax_from xs 1 x 0))"

text \<open>\<open>a[n]\<close> for an index that is not negative: an \<open>IndexError\<close> past the end.\<close>

definition getitem :: "'a list \<Rightarrow> nat \<Rightarrow> error + 'a" where
  "getitem a n = (if n < length a then Inr (a ! n) else Inl IndexError)"

subsection \<open>Arrays with their shape\<close>

text \<open>
  A numpy array of rank one or more is kept as the list of its entries along the first
  axis, each entry flattened to its elements in storage order, together with the extents
  of the remaining axes: \<open>x.shape\<close> is the number of entries followed by \<open>dims\<close>, and the
  rank is one more than the length of \<open>dims\<close>. In an array every entry holds as many
  elements as the product of \<open>dims\<close>.

  \<open>cifar10.load_data()\<close> returns \<open>(x_train, y_train), (x_test, y_test)\<close>: two arrays of
  images with unsigned 8-bit pixels and two arrays of integer class labels. A label array
  is the list of its labels (the \<open>(n, 1)\<close> column the loader returns, read in order).
\<close>

record 'a ndarray =
  dims :: "nat list"
  images :: "'a list list"

type_synonym dataset = "(nat ndarray \<times> int list) \<times> (nat ndarray \<times> int list)"

definition well_shaped :: "'a ndarray \<Rightarrow> bool" where
  "well_shaped x = list_all (\<lambda>img. length img = prod_list (dims x)) (images x)"

definition shape :: "'a ndarray \<Rightarrow> nat list" where
  "shape x = length (images x) # dims x"

text \<open>
  The statement \<open>x_norm = x / x_train.max()\<close>: the quotient has the shape of \<open>x\<close>.
\<close>

definition scale_array ::
  "(rat \<Rightarrow> rat) \<Rightarrow> nat ndarray \<Rightarrow> nat ndarray \<Rightarrow> error + npfloat ndarray" where
  "scale_array fl x x_train =
     bind (scale fl (images x) (images x_train)) (\<lambda>q. Inr \<lparr>dims = dims x, images = q\<rparr>)"

text \<open>
  The expression \<open>np.expand_dims(x[n, :, :, :], 0)\<close>: four indices need an array of rank
  four or more and \<open>n\<close> an entry that exists, an \<open>IndexError\<close> otherwise; the result is
  the array of the one entry \<open>n\<close>.
\<close>

definition sample :: "'a ndarray \<Rightarrow> nat \<Rightarrow> error + 'a ndarray" where
  "sample x n =
     (if length (dims x) < 3 then Inl IndexError
      else if n < length (images x) then Inr \<lparr>dims = dims x, images = [images x ! n]\<rparr>
      else Inl IndexError)"

text \<open>
  \<open>plt.imshow(img.squeeze())\<close>: \<open>squeeze\<close> drops every axis of extent one, and matplotlib
  draws an array of rank two, or of rank three with three or four channels; any other
  shape is a \<open>TypeError\<close>. The result is what is drawn, the elements of the array.
\<close>

definition imshow_squeezed :: "'a ndarray \<Rightarrow> error + 'a list" where
  "imshow_squeezed img =
     (let s = filter (\<lambda>d. d \<noteq> 1) (shape img) in
      if length s = 2 \<or> (length s = 3 \<and> (last s = 3 \<or> last s = 4))
      then Inr (concat (images img)) else Inl TypeError)"

subsection \<open>One-hot encoding\<close>

text \<open>
  Modelled from the spec: \<open>keras.utils.to_categorical\<close> is a function of the Keras
  library and its code is not part of the notebook. The spec asks for one-hot encoded
  labels; the model follows the library's documented behaviour: the labels are read as
  integers in order, \<open>num_classes\<close> defaults to the largest label plus one when it is not
  given (zero counts as not given), the result is a float matrix of zeros with one row
  per label, and the assignment \<open>categorical[arange(n), y] = 1\<close> sets one entry per row.
  That assignment is numpy indexing: a label from \<open>num_classes\<close> on, or below
  \<open>- num_classes\<close>, is an \<open>IndexError\<close>, and a negative label counts from the end.
\<close>

definition to_categorical :: "int list \<Rightarrow> nat \<Rightarrow> error + npfloat list list" where
  "to_categorical y n_classes =
     (if n_classes = 0 \<and> y = [] then Inl ValueError
      else
        let k = (if n_classes = 0 then fold max (tl y) (hd y) + 1 else int n_classes) in
        if k < 0 then Inl ValueError
        else if \<exists>c \<in> set y. c < - k \<or> k \<le> c then Inl IndexError
        else Inr (map (\<lambda>c. (replicate (nat k) (Finite 0))[nat (c mod k) := Finite 1]) y))"

subsection \<open>Callbacks, augmentation, and what the framework computes\<close>

text \<open>
  \<^verbatim>\<open>
  tb_log = keras.callbacks.TensorBoard(log_dir='./logs', histogram_freq=10,
                                       write_graph=True, write_images=True)
  datagen = ImageDataGenerator(rotation_range=20, width_shift_range=0.2,
                               height_shift_range=0.2, horizontal_flip=True)
  labels = ['airplane', 'automobile', 'bird', 'cat', 'deer', 'dog', 'frog', 'horse',
            'ship', 'truck']
  samples = [4, 83, 298, 1045, 3751, 5555, 7112, 8953]
  \<close>
\<close>

datatype callback = TensorBoard string nat bool bool

record image_data_generator =
  rotation_range :: nat
  width_shift_range :: rat
  height_shift_range :: rat
  horizontal_flip :: bool

definition tb_log :: callback where
  "tb_log = TensorBoard ''./logs'' 10 True True"

definition datagen :: image_data_generator where
  "datagen = \<lparr>rotation_range = 20, width_shift_range = 2/10, height_shift_range = 2/10,
     horizontal_flip = True\<rparr>"

definition labels :: "string list" where
  "labels = [''airplane'', ''automobile'', ''bird'', ''cat'', ''deer'', ''dog'', ''frog'',
     ''horse'', ''ship'', ''truck'']"

definition samples :: "nat list" where
  "samples = [4, 83, 298, 1045, 3751, 5555, 7112, 8953]"

text \<open>
  \<open>datagen.flow(x, y, batch_size=b)\<close> is the iterator that \<open>fit\<close> draws its batches from:
  the generator's settings over the arrays it was given. Its constructor raises a
  \<open>ValueError\<close> when \<open>x\<close> and \<open>y\<close> differ in length, and then when \<open>x\<close> is not of rank 4.
\<close>

record iterator =
  it_generator :: image_data_generator
  it_x :: "npfloat ndarray"
  it_y :: "npfloat list list"
  it_batch_size :: nat

definition flow ::
  "image_data_generator \<Rightarrow> npfloat ndarray \<Rightarrow> npfloat list list \<Rightarrow> nat \<Rightarrow>
     error + iterator" where
  "flow g x y b =
     (if length (images x) \<noteq> length y then Inl ValueError
      else if length (dims x) \<noteq> 3 then Inl ValueError
      else Inr \<lparr>it_generator = g, it_x = x, it_y = y, it_batch_size = b\<rparr>)"

definition compile :: "keras_model \<Rightarrow> loss \<Rightarrow> optimizer \<Rightarrow> metric list \<Rightarrow> keras_model" where
  "compile m l opt ms =
     m\<lparr>compiled := Some \<lparr>cfg_loss = l, cfg_optimizer = opt, cfg_metrics = ms\<rparr>\<rparr>"

text \<open>
  The numbers that training, evaluation and prediction produce are the framework's
  business. They enter as three unknown functions: the value logged for a quantity at
  an epoch of a training run, the value of a quantity on an evaluation set, and the
  output unit \<open>k\<close> of the network for one image. Each value is a float, \<open>nan\<close> included.
\<close>

datatype quantity = Loss | Metric metric

record framework =
  fw_history :: "keras_model \<Rightarrow> iterator \<Rightarrow> string \<Rightarrow> nat \<Rightarrow> npfloat"
  fw_evaluate :: "keras_model \<Rightarrow> npfloat ndarray \<Rightarrow> npfloat list list \<Rightarrow> quantity \<Rightarrow> npfloat"
  fw_predict :: "keras_model \<Rightarrow> npfloat list \<Rightarrow> nat \<Rightarrow> npfloat"

text \<open>
  The names under which Keras reports the quantities, as the progress line recorded in
  the notebook shows them: \<open>loss\<close>, \<open>accuracy\<close>, \<open>auc\<close>, \<open>precision\<close>, \<open>recall\<close>.
\<close>

fun quantity_name :: "quantity \<Rightarrow> string" where
  "quantity_name Loss = ''loss''"
| "quantity_name (Metric Accuracy) = ''accuracy''"
| "quantity_name (Metric AUC) = ''auc''"
| "quantity_name (Metric Precision) = ''precision''"
| "quantity_name (Metric Recall) = ''recall''"

definition reported :: "compile_cfg \<Rightarrow> quantity list" where
  "reported cfg = Loss # map Metric (cfg_metrics cfg)"

text \<open>
  What Keras checks of an array it is given as input of the model: the shape of one entry
  must be the shape the input layer declares. Evaluation data must also hold as many
  entries as labels, and at least one. A failed check is a \<open>ValueError\<close>.
\<close>

definition compatible :: "keras_model \<Rightarrow> 'a ndarray \<Rightarrow> bool" where
  "compatible m x =
     (case layers m of InputLayer shp name # ls \<Rightarrow> dims x = shp | _ \<Rightarrow> False)"

definition check_arrays :: "keras_model \<Rightarrow> 'a ndarray \<Rightarrow> 'b list \<Rightarrow> error + unit" where
  "check_arrays m x y =
     (if compatible m x \<and> length (images x) = length y \<and> images x \<noteq> []
      then Inr () else Inl ValueError)"

text \<open>
  The metrics AUC, precision and recall assert that every prediction lies between 0 and
  1, and the predictions of the network for an input that holds a \<open>nan\<close> or an \<open>inf\<close> are
  \<open>nan\<close>: on a model compiled with one of these metrics, training or evaluating on such
  an array stops with an \<open>InvalidArgumentError\<close>. On arrays of finite numbers the
  predictions are taken to be probabilities, that is, training is taken not to diverge.
\<close>

definition all_finite :: "npfloat ndarray \<Rightarrow> bool" where
  "all_finite x = list_all (\<lambda>v. \<not> fp_error v) (concat (images x))"

definition check_predictions :: "compile_cfg \<Rightarrow> npfloat ndarray \<Rightarrow> error + unit" where
  "check_predictions cfg x =
     (if list_ex (\<lambda>q. q = AUC \<or> q = Precision \<or> q = Recall) (cfg_metrics cfg) \<and>
         \<not> all_finite x
      then Inl InvalidArgumentError else Inr ())"

text \<open>
  \<open>model.fit(iterator, epochs=n, validation_data=(x, y), callbacks=cbs)\<close> on a model that
  was not compiled is a \<open>RuntimeError\<close>. The batches of the iterator must fit the input
  layer and the iterator must not be empty, and the validation data must pass the checks
  above. Then the weights are trained for \<open>n\<close> more epochs, and the returned history
  holds, under each reported name and under the same name prefixed with \<open>val_\<close>, one
  value per epoch.
\<close>

type_synonym history = "string \<rightharpoonup> npfloat list"

definition fit ::
  "framework \<Rightarrow> keras_model \<Rightarrow> iterator \<Rightarrow> nat \<Rightarrow> npfloat ndarray \<times> npfloat list list \<Rightarrow>
     callback list \<Rightarrow> error + history \<times> keras_model" where
  "fit fw m it n val cbs =
     (case compiled m of
        None \<Rightarrow> Inl RuntimeError
      | Some cfg \<Rightarrow>
          if \<not> compatible m (it_x it) \<or> images (it_x it) = [] then Inl ValueError
          else bind (check_arrays m (fst val) (snd val)) (\<lambda>u.
          bind (check_predictions cfg (it_x it)) (\<lambda>u.
          bind (check_predictions cfg (fst val)) (\<lambda>u.
          Inr (map_of (concat (map (\<lambda>q.
                  [(quantity_name q, map (fw_history fw m it (quantity_name q)) [0..<n]),
                   (''val_'' @ quantity_name q,
                    map (fw_history fw m it (''val_'' @ quantity_name q)) [0..<n])])
                (reported cfg))),
               m\<lparr>epochs_trained := epochs_trained m + n\<rparr>)))))"

definition lookup :: "history \<Rightarrow> string \<Rightarrow> error + npfloat list" where
  "lookup h key = (case h key of None \<Rightarrow> Inl KeyError | Some v \<Rightarrow> Inr v)"

text \<open>
  Modelled from the spec: \<open>model.evaluate\<close> is a method of the Keras library and its code
  is not part of the notebook. The spec has the script evaluate the model it compiled
  with a loss and a metrics set; the model follows the library's documented behaviour:
  the result is the list of the loss followed by the metrics in the order \<open>compile\<close>
  received them; a model that was not compiled is a \<open>RuntimeError\<close>, and arrays that
  fail the checks above raise as described there.
\<close>

definition evaluate ::
  "framework \<Rightarrow> keras_model \<Rightarrow> npfloat ndarray \<Rightarrow> npfloat list list \<Rightarrow> error + npfloat list" where
  "evaluate fw m x y =
     (case compiled m of
        None \<Rightarrow> Inl RuntimeError
      | Some cfg \<Rightarrow>
          bind (check_arrays m x y) (\<lambda>u.
          bind (check_predictions cfg x) (\<lambda>u.
          Inr (map (fw_evaluate fw m x y) (reported cfg)))))"

text \<open>
  The shape of the model's output is the shape its last layer yields; \<open>model.predict(x)\<close>
  is one row per image, with one number per output unit.
\<close>

fun infer_shape :: "layer list \<Rightarrow> nat list \<Rightarrow> error + nat list" where
  "infer_shape [] s = Inr s"
| "infer_shape (l # ls) s = bind (output_shape l s) (infer_shape ls)"

definition predict ::
  "framework \<Rightarrow> keras_model \<Rightarrow> npfloat list list \<Rightarrow> error + npfloat list list" where
  "predict fw m x =
     bind (infer_shape (layers m) []) (\<lambda>s.
     Inr (map (\<lambda>img. map (fw_predict fw m img) [0..<prod_list s]) x))"

text \<open>
  \<open>model.predict(x)\<close> on an array: Keras raises a \<open>ValueError\<close> when the entries do not fit
  the input layer or when there is no entry; otherwise the result is the rows above.
\<close>

definition predict_array ::
  "framework \<Rightarrow> keras_model \<Rightarrow> npfloat ndarray \<Rightarrow> error + npfloat list list" where
  "predict_array fw m x =
     (if compatible m x \<and> images x \<noteq> [] then predict fw m (images x) else Inl ValueError)"

fun map_err :: "('a \<Rightarrow> error + 'b) \<Rightarrow> 'a list \<Rightarrow> error + 'b list" where
  "map_err f [] = Inr []"
| "map_err f (a # as) = bind (f a) (\<lambda>b. bind (map_err f as) (\<lambda>bs. Inr (b # bs)))"

subsection \<open>The execution trace\<close>

text \<open>
  A statement that computes on the data, acts on the model or produces output leaves one
  event in the trace when it completes. A statement that raises leaves none and stops
  the run; the trace then holds what was executed before it.
\<close>

datatype printed =
  PStr string | PNum npfloat | PNat nat | PShape "nat list" | PLabels "nat list"

datatype event =
    Import string
  | Magic string
  | Shell string
  | Load_data
  | Normalize string
  | Print "printed list"
  | One_hot string
  | Build keras_model
  | Compile keras_model
  | Summary "(string \<times> nat list \<times> nat) list"
  | Fit keras_model iterator nat "npfloat ndarray \<times> npfloat list list" "callback list"
  | Evaluate keras_model "npfloat ndarray" "npfloat list list"
  | Plot "(nat list \<times> npfloat list) list"
  | Legend "string list"
  | Title string
  | Xlabel string
  | Ylabel string
  | Predict keras_model "npfloat ndarray"
  | Subplots nat nat
  | Subplot nat nat nat
  | Imshow image
  | Axis string
  | Save keras_model string

type_synonym 'a run = "event list \<Rightarrow> event list \<times> (error + 'a)"

definition emit :: "event \<Rightarrow> unit run" where
  "emit e tr = (tr @ [e], Inr ())"

definition lift :: "error + 'a \<Rightarrow> 'a run" where
  "lift r tr = (tr, r)"

definition and_then :: "'a run \<Rightarrow> ('a \<Rightarrow> 'b run) \<Rightarrow> 'b run" where
  "and_then m f tr = (case m tr of (tr', Inl e) \<Rightarrow> (tr', Inl e) | (tr', Inr a) \<Rightarrow> f a tr')"

definition stmt :: "event \<Rightarrow> error + 'a \<Rightarrow> 'a run" where
  "stmt e r = and_then (lift r) (\<lambda>a. and_then (emit e) (\<lambda>u. lift (Inr a)))"

fun for_each :: "('a \<Rightarrow> unit run) \<Rightarrow> 'a list \<Rightarrow> unit run" where
  "for_each body [] = lift (Inr ())"
| "for_each body (a # as) = and_then (body a) (\<lambda>u. for_each body as)"

text \<open>
  \<open>plt.plot(x1, y1, fmt, x2, y2, fmt)\<close> draws one curve per pair; matplotlib raises a
  \<open>ValueError\<close> when the two sequences of a pair differ in length.
\<close>

definition plot :: "(nat list \<times> npfloat list) list \<Rightarrow> error + unit" where
  "plot curves =
     (if \<forall>c \<in> set curves. length (fst c) = length (snd c) then Inr () else Inl ValueError)"

subsection \<open>The notebook\<close>

text \<open>
  The body of the loop over \<open>enumerate(samples)\<close> of the last plotting cell:
  \<^verbatim>\<open>
  img_norm = np.expand_dims(x_test_norm[n, :, :, :], 0)
  img = np.expand_dims(x_test[n, :, :, :], 0)
  plt.subplot(len(samples)//2, 2, i+1)
  plt.imshow(img.squeeze());
  plt.axis('off')
  label = y_test[n].argmax()
  predicted_label = model.predict(img_norm).argmax()
  plt.title('Actual = {}, Predicted = {}'.format(labels[label], labels[predicted_label]),
            fontsize=14);
  \<close>
\<close>

definition show_sample ::
  "framework \<Rightarrow> keras_model \<Rightarrow> nat ndarray \<Rightarrow> npfloat ndarray \<Rightarrow> npfloat list list \<Rightarrow>
     nat \<times> nat \<Rightarrow> unit run" where
  "show_sample fw m x_test x_test_norm y_test = (\<lambda>(i, n).
     and_then (lift (sample x_test_norm n)) (\<lambda>img_norm.
     and_then (lift (sample x_test n)) (\<lambda>img.
     and_then (emit (Subplot (length samples div 2) 2 (i + 1))) (\<lambda>u.
     and_then (and_then (lift (imshow_squeezed img)) (\<lambda>drawn. emit (Imshow drawn))) (\<lambda>u.
     and_then (emit (Axis ''off'')) (\<lambda>u.
     and_then (lift (bind (getitem y_test n) argmax)) (\<lambda>label.
     and_then (stmt (Predict m img_norm)
                 (bind (predict_array fw m img_norm) (\<lambda>p. argmax (concat p)))) (\<lambda>predicted_label.
     and_then (lift (getitem labels label)) (\<lambda>actual.
     and_then (lift (getitem labels predicted_label)) (\<lambda>predicted.
     emit (Title (''Actual = '' @ actual @ '', Predicted = '' @ predicted))))))))))))"

text \<open>
  The cells in order, one line per statement. The constants of the configuration cells,
  the tensors of the topology cell, \<open>tb_log\<close>, \<open>datagen\<close>, \<open>labels\<close> and \<open>samples\<close> are the
  constants above; the variables that hold data or the model are bound here, a later
  binding of a name hiding the earlier one as the assignment does. The dataset \<open>ds\<close> is
  what \<open>cifar10.load_data()\<close> returns, \<open>fl\<close> is the rounding of the float format and \<open>fw\<close>
  holds the numbers the framework computes. Arguments that only style a figure
  (\<open>figsize\<close>, \<open>fontsize\<close>, the line format) and \<open>verbose\<close> are left out.
\<close>

definition notebook :: "(rat \<Rightarrow> rat) \<Rightarrow> framework \<Rightarrow> dataset \<Rightarrow> unit run" where
  "notebook fl fw ds =
     and_then (emit (Import ''tensorflow.keras'')) (\<lambda>u.
     and_then (stmt Load_data (Inr ds)) (\<lambda>((x_train, y_train), (x_test, y_test)).
     and_then (stmt (Normalize ''x_train_norm'') (scale_array fl x_train x_train)) (\<lambda>x_train_norm.
     and_then (stmt (Normalize ''x_test_norm'') (scale_array fl x_test x_train)) (\<lambda>x_test_norm.
     and_then (emit (Print [PStr ''x_train shape:'', PShape (shape x_train)])) (\<lambda>u.
     and_then (emit (Print [PNat (hd (shape x_train)), PStr ''train samples''])) (\<lambda>u.
     and_then (emit (Print [PNat (hd (shape x_test)), PStr ''test samples''])) (\<lambda>u.
     and_then (stmt (One_hot ''y_train'') (to_categorical y_train num_classes)) (\<lambda>y_train.
     and_then (stmt (One_hot ''y_test'') (to_categorical y_test num_classes)) (\<lambda>y_test.
     and_then (and_then (lift model) (\<lambda>m. stmt (Build m) (Inr m))) (\<lambda>model.
     and_then (lift (Inr (compile model Categorical_crossentropy (Adam (1 / 10 ^ 5))
                 [Accuracy, AUC, Precision, Recall]))) (\<lambda>model.
     and_then (emit (Compile model)) (\<lambda>u.
     and_then (and_then (lift (summary_rows (layers model) [])) (\<lambda>rows. emit (Summary rows))) (\<lambda>u.
     and_then (emit (Magic ''load_ext tensorboard'')) (\<lambda>u.
     and_then (emit (Magic ''tensorboard --logdir logs'')) (\<lambda>u.
     and_then (and_then (lift (flow datagen x_train_norm y_train batch_size)) (\<lambda>it.
               stmt (Fit model it epochs (x_test_norm, y_test) [tb_log])
                 (fit fw model it epochs (x_test_norm, y_test) [tb_log]))) (\<lambda>(history, model).
     and_then (stmt (Evaluate model x_test_norm y_test)
                 (evaluate fw model x_test_norm y_test)) (\<lambda>score.
     and_then (and_then (lift (getitem score 0)) (\<lambda>v. emit (Print [PStr ''Test loss:'', PNum v]))) (\<lambda>u.
     and_then (and_then (lift (getitem score 1)) (\<lambda>v. emit (Print [PStr ''Test accuracy:'', PNum v]))) (\<lambda>u.
     and_then (and_then (lift (getitem score 2)) (\<lambda>v. emit (Print [PStr ''Test AUC:'', PNum v]))) (\<lambda>u.
     and_then (and_then (lift (getitem score 3)) (\<lambda>v. emit (Print [PStr ''Test Precision:'', PNum v]))) (\<lambda>u.
     and_then (and_then (lift (getitem score 4)) (\<lambda>v. emit (Print [PStr ''Test Recall:'', PNum v]))) (\<lambda>u.
     and_then (emit (Import ''matplotlib.pyplot'')) (\<lambda>u.
     and_then (emit (Magic ''matplotlib inline'')) (\<lambda>u.
     and_then (and_then (lift (lookup history ''loss'')) (\<lambda>loss.
               and_then (lift (lookup history ''val_loss'')) (\<lambda>val_loss.
               stmt (Plot [([1..<epochs + 1], loss), ([1..<epochs + 1], val_loss)])
                 (plot [([1..<epochs + 1], loss), ([1..<epochs + 1], val_loss)])))) (\<lambda>u.
     and_then (emit (Legend [''training loss'', ''testing loss''])) (\<lambda>u.
     and_then (emit (Title ''Loss curve'')) (\<lambda>u.
     and_then (emit (Xlabel ''Epoch'')) (\<lambda>u.
     and_then (emit (Ylabel ''Loss'')) (\<lambda>u.
     and_then (stmt (Predict model x_test_norm)
                 (bind (predict_array fw model x_test_norm) (map_err argmax))) (\<lambda>all_predictions.
     and_then (emit (Print [PLabels all_predictions])) (\<lambda>u.
     and_then (emit (Import ''numpy'')) (\<lambda>u.
     and_then (emit (Subplots (length samples div 2) 2)) (\<lambda>u.
     and_then (for_each (show_sample fw model x_test x_test_norm y_test)
                 (enumerate 0 samples)) (\<lambda>u.
     and_then (emit (Save model ''my_vgg_model'')) (\<lambda>u.
     emit (Shell ''ls my_vgg_model''))))))))))))))))))))))))))))))))))))"

subsection \<open>The steps of the script\<close>

text \<open>
  The nine steps the specification lists, and the step an event belongs to. Every
  plotting call and every prediction belongs to the visualisation (the loss curves are
  drawn after the evaluation and before the sample predictions). Imports, notebook
  magics, shell commands, printing and the model summary belong to no step.
\<close>

datatype step =
  Load | Normalise | Encode | Declare | Compile_model | Train | Test | Visualise | Persist

fun step_of :: "event \<Rightarrow> step option" where
  "step_of Load_data = Some Load"
| "step_of (Normalize v) = Some Normalise"
| "step_of (One_hot v) = Some Encode"
| "step_of (Build m) = Some Declare"
| "step_of (Compile m) = Some Compile_model"
| "step_of (Fit m it n val cbs) = Some Train"
| "step_of (Evaluate m x y) = Some Test"
| "step_of (Plot cs) = Some Visualise"
| "step_of (Legend ls) = Some Visualise"
| "step_of (Title t) = Some Visualise"
| "step_of (Xlabel t) = Some Visualise"
| "step_of (Ylabel t) = Some Visualise"
| "step_of (Predict m x) = Some Visualise"
| "step_of (Subplots r c) = Some Visualise"
| "step_of (Subplot r c i) = Some Visualise"
| "step_of (Imshow img) = Some Visualise"
| "step_of (Axis a) = Some Visualise"
| "step_of (Save m path) = Some Persist"
| "step_of e = None"

definition steps :: "event list \<Rightarrow> step list" where
  "steps tr = remdups_adj (List.map_filter step_of tr)"

text \<open>
  Three conditions on a dataset, each asking for more than the one before. The first
  asks for what normalisation and one-hot encoding need: both image arrays are arrays,
  the training images hold at least one pixel, and every label is an index into the ten
  classes. The second adds what \<open>flow\<close>, \<open>fit\<close>, \<open>evaluate\<close> and \<open>predict\<close> check: images of
  the input shape, as many images as labels in either set, a test set that is not empty,
  and a training pixel above zero, so that every quotient is a finite number. The third
  adds that the test set reaches the largest sample index.
\<close>

definition encodable :: "dataset \<Rightarrow> bool" where
  "encodable ds =
     (case ds of ((x_train, y_train), (x_test, y_test)) \<Rightarrow>
        well_shaped x_train \<and> well_shaped x_test \<and>
        concat (images x_train) \<noteq> [] \<and>
        list_all (\<lambda>c. - int num_classes \<le> c \<and> c < int num_classes) y_train \<and>
        list_all (\<lambda>c. - int num_classes \<le> c \<and> c < int num_classes) y_test)"

definition trainable :: "dataset \<Rightarrow> bool" where
  "trainable ds =
     (case ds of ((x_train, y_train), (x_test, y_test)) \<Rightarrow>
        encodable ds \<and> list_ex (\<lambda>p. 0 < p) (concat (images x_train)) \<and>
        dims x_train = input_shape \<and> length (images x_train) = length y_train \<and>
        dims x_test = input_shape \<and> length (images x_test) = length y_test \<and>
        y_test \<noteq> [])"

definition loadable :: "dataset \<Rightarrow> bool" where
  "loadable ds =
     (case ds of ((x_train, y_train), (x_test, y_test)) \<Rightarrow>
        trainable ds \<and> list_all (\<lambda>n. n < length y_test) samples)"

subsection \<open>A small dataset\<close>

text \<open>
  A dataset of the loader's shapes on which every statement of the notebook succeeds: one
  white training image of 32 by 32 pixels with 3 channels, labelled 3, and 8954 grey
  test images of the same shape, labelled 5 (the largest sample index is 8953). The
  framework beside it answers zero everywhere.
\<close>

definition example_dataset :: dataset where
  "example_dataset =
     ((\<lparr>dims = [32, 32, 3], images = [replicate 3072 255]\<rparr>, [3]),
      (\<lparr>dims = [32, 32, 3], images = replicate 8954 (replicate 3072 7)\<rparr>, replicate 8954 5))"

definition example_framework :: framework where
  "example_framework =
     \<lparr>fw_history = (\<lambda>m it key epoch. Finite 0), fw_evaluate = (\<lambda>m x y q. Finite 0),
      fw_predict = (\<lambda>m img k. Finite 0)\<rparr>"

section \<open>Properties\<close>

lemma tensor_defs:
  "layer15 = [InputLayer [32, 32, 3] ''input_images'',
      Conv2D 64 (3,3) Relu Same, Conv2D 64 (3,3) Relu Same, MaxPooling2D (2,2),
      Conv2D 96 (3,3) Relu Same, Conv2D 96 (3,3) Relu Same, MaxPooling2D (2,2),
      Conv2D 192 (3,3) Relu Same, Conv2D 192 (3,3) Relu Same, Conv2D 192 (1,1) Relu Same,
      MaxPooling2D (2,2),
      Conv2D 224 (3,3) Relu Same, Conv2D 224 (3,3) Relu Same, Conv2D 224 (1,1) Relu Same,
      Flatten, Dense 1024 Relu, Dropout (1/2), Dense 1024 Relu, Dense 10 Softmax]"
  by (simp add: layer15_def layer14_def layer13_def layer12_def layer11_def conv10_def
      conv9_def conv8_def max4_def conv7_def conv6_def conv5_def max3_def conv4_def
      conv3_def max2_def conv2_def conv1_def inputs_def Input_def call_def input_shape_def
      img_rows_def img_cols_def n_channels_def num_classes_def)

lemma model_value:
  "model = Inr \<lparr>layers = layer15, compiled = None, epochs_trained = 0\<rparr>"
  by (simp add: model_def Model_def tensor_defs inputs_def Input_def input_shape_def
      img_rows_def img_cols_def n_channels_def)

lemma summary_rows_model: "summary_rows layer15 [] = Inr recorded_summary"
  by (simp add: tensor_defs bind_def recorded_summary_def)

lemma count_trainable_model: "count_trainable layer15 [] = Inr 6332650"
  by (simp add: tensor_defs bind_def)

lemma count_non_trainable_model: "count_non_trainable layer15 [] = Inr 0"
  by (simp add: tensor_defs bind_def)

lemma infer_shape_model: "infer_shape layer15 [] = Inr [10]"
  by (simp add: tensor_defs bind_def)

subsection \<open>Facts about the array operations\<close>

lemma amax_props:
  assumes "amax x = Inr m"
  shows "m \<in> set (concat x)" and "\<forall>p \<in> set (concat x). p \<le> m"
proof -
  obtain p ps where c: "concat x = p # ps" and m: "m = fold max ps p"
    using assms by (auto simp: amax_def split: list.splits)
  have "m = Max (set (p # ps))" using m Max.set_eq_fold[of p ps] by simp
  then show "m \<in> set (concat x)" and "\<forall>p \<in> set (concat x). p \<le> m"
    using c Max_in[of "set (p#ps)"] by auto
qed

lemma amax_ok: "concat x \<noteq> [] \<Longrightarrow> \<exists>m. amax x = Inr m"
  by (auto simp: amax_def split: list.splits)

lemma amax_error:
  assumes "concat x = []" shows "amax x = Inl ValueError"
  unfolding amax_def assms by simp

lemma nonempty_if_member: "\<exists>p \<in> set xs. P p \<Longrightarrow> xs \<noteq> []"
  by auto

lemma scale_value: "amax x_train = Inr m \<Longrightarrow> scale fl x x_train = Inr (divide_arr fl x m)"
  by (simp add: scale_def bind_def)

lemma set_concat_divide_arr:
  "set (concat (divide_arr fl x m)) = (\<lambda>p. true_divide fl p m) ` set (concat x)"
  by (auto simp: divide_arr_def)

lemma true_divide_unit:
  assumes "mono fl" "fl 0 = 0" "fl 1 = 1" "0 < m" "p \<le> m"
  shows "in_unit_interval (true_divide fl p m)"
proof -
  let ?q = "rat_of_nat p / rat_of_nat m"
  have q0: "0 \<le> ?q" by simp
  have "rat_of_nat p \<le> rat_of_nat m" using assms(5) by simp
  then have q1: "?q \<le> 1" using assms(4) by (simp add: pos_divide_le_eq)
  have "fl 0 \<le> fl ?q" using monoD[OF assms(1) q0] .
  moreover have "fl ?q \<le> fl 1" using monoD[OF assms(1) q1] .
  ultimately show ?thesis using assms(2,3,4) by (simp add: true_divide_def)
qed

lemma true_divide_nonneg:
  assumes "mono fl" "fl 0 = 0" "0 < m"
  shows "non_negative (true_divide fl p m) \<and> \<not> fp_error (true_divide fl p m)"
proof -
  have q0: "0 \<le> rat_of_nat p / rat_of_nat m" by simp
  have "fl 0 \<le> fl (rat_of_nat p / rat_of_nat m)" using monoD[OF assms(1) q0] .
  then show ?thesis using assms(2,3) by (simp add: true_divide_def)
qed

lemma argmax_from_bound: "k < i \<Longrightarrow> argmax_from xs i best k < i + length xs"
proof (induction xs arbitrary: i best k)
  case Nil
  then show ?case by simp
next
  case (Cons x xs)
  have step: "argmax_from xs (i + 1) b j < (i + 1) + length xs" if "j < i + 1" for b j
    using Cons.IH that by blast
  show ?case using step[of i x] step[of k best] Cons.prems by simp
qed

lemma argmax_bound: "argmax a = Inr k \<Longrightarrow> k < length a"
  using argmax_from_bound[of 0 1] by (auto simp: argmax_def split: list.splits)

lemma argmax_from_zeros: "argmax_from (replicate n (Finite 0)) i (Finite 1) k = k"
  by (induction n arbitrary: i) auto

lemma argmax_from_hot:
  "c < n \<Longrightarrow> argmax_from ((replicate n (Finite 0))[c := Finite 1]) i (Finite 0) k = i + c"
proof (induction n arbitrary: c i k)
  case 0
  then show ?case by simp
next
  case (Suc n)
  show ?case
  proof (cases c)
    case 0
    then show ?thesis by (simp add: argmax_from_zeros)
  next
    case (Suc c')
    then show ?thesis using Suc.IH[of c' "i + 1" k] Suc.prems by simp
  qed
qed

lemma argmax_one_hot:
  assumes "c < n" shows "argmax ((replicate n (Finite 0))[c := Finite 1]) = Inr c"
proof (cases c)
  case 0
  then obtain n' where "n = Suc n'" using assms by (cases n) auto
  then show ?thesis using 0 by (simp add: argmax_def argmax_from_zeros)
next
  case (Suc c')
  then obtain n' where n: "n = Suc n'" using assms by (cases n) auto
  then have "c' < n'" using Suc assms by simp
  then show ?thesis using Suc n argmax_from_hot[of c' n' 1 0] by (simp add: argmax_def)
qed

subsection \<open>Facts about the run of the notebook\<close>

lemma and_then_emit: "and_then (emit e) f tr = f () (tr @ [e])"
  by (simp add: and_then_def emit_def)

lemma and_then_lift_ok: "and_then (lift (Inr a)) f tr = f a tr"
  by (simp add: and_then_def lift_def)

lemma and_then_lift_err: "and_then (lift (Inl e)) f tr = (tr, Inl e)"
  by (simp add: and_then_def lift_def)

lemma and_then_stmt_ok: "and_then (stmt e (Inr a)) f tr = f a (tr @ [e])"
  by (simp add: stmt_def and_then_def lift_def emit_def)

lemma and_then_assoc: "and_then (and_then m f) g tr = and_then m (\<lambda>a. and_then (f a) g) tr"
  by (simp add: and_then_def split: prod.splits sum.splits)

lemma emit_apply: "emit e tr = (tr @ [e], Inr ())"
  by (simp add: emit_def)

lemma and_then_appends:
  assumes "\<And>tr. m tr = (tr @ evs, Inr a)"
  shows "and_then m f tr = f a (tr @ evs)"
  by (simp add: and_then_def assms)

lemmas run_simps = and_then_emit and_then_lift_ok and_then_lift_err and_then_stmt_ok
  and_then_assoc emit_apply

lemma to_categorical_value:
  assumes "list_all (\<lambda>c. - int num_classes \<le> c \<and> c < int num_classes) y"
  shows "to_categorical y num_classes =
      Inr (map (\<lambda>c. (replicate 10 (Finite 0))[nat (c mod 10) := Finite 1]) y)"
  using assms by (auto simp: to_categorical_def num_classes_def list_all_iff)

lemma map_err_ok:
  assumes "\<forall>a \<in> set as. \<exists>b. f a = Inr b"
  shows "\<exists>bs. map_err f as = Inr bs"
  using assms by (induction as) (auto simp: bind_def)

lemma argmax_nonempty: "a \<noteq> [] \<Longrightarrow> \<exists>k. argmax a = Inr k \<and> k < length a"
  using argmax_bound[of a] by (cases a) (auto simp: argmax_def)

lemma predict_value:
  assumes "infer_shape (layers m) [] = Inr [10]"
  shows "predict fw m x = Inr (map (\<lambda>img. map (fw_predict fw m img) [0..<10]) x)"
  using assms by (simp add: predict_def bind_def)

lemma length_labels: "length labels = 10"
  by (simp add: labels_def)

lemma for_each_ok:
  assumes "\<forall>a \<in> set as. \<exists>evs. list_all P evs \<and> (\<forall>tr. body a tr = (tr @ evs, Inr ()))"
  shows "\<exists>evs. list_all P evs \<and> (\<forall>tr. for_each body as tr = (tr @ evs, Inr ()))"
  using assms
proof (induction as)
  case Nil
  have "list_all P []" by simp
  moreover have "\<forall>tr. for_each body [] tr = (tr @ [], Inr ())" by (simp add: lift_def)
  ultimately show ?case by blast
next
  case (Cons a as)
  then obtain e1 where e1: "list_all P e1" "\<And>tr. body a tr = (tr @ e1, Inr ())" by auto
  from Cons obtain e2 where e2: "list_all P e2" "\<And>tr. for_each body as tr = (tr @ e2, Inr ())"
    by auto
  have "for_each body (a # as) tr = (tr @ (e1 @ e2), Inr ())" for tr
    by (simp add: and_then_def e1(2) e2(2))
  moreover have "list_all P (e1 @ e2)" using e1(1) e2(1) by simp
  ultimately show ?case by blast
qed

lemma filter_step_visualise:
  assumes "list_all (\<lambda>e. step_of e = Some Visualise) evs" and "s \<noteq> Visualise"
  shows "filter (\<lambda>e. step_of e = Some s) evs = []"
  using assms by (auto simp: filter_empty_conv list_all_iff)

lemma map_filter_append: "List.map_filter f (xs @ ys) = List.map_filter f xs @ List.map_filter f ys"
  by (simp add: List.map_filter_def)

lemma map_filter_visualise:
  assumes "list_all (\<lambda>e. step_of e = Some Visualise) evs"
  shows "List.map_filter step_of evs = replicate (length evs) Visualise"
  using assms by (induction evs) (simp_all add: List.map_filter_simps)

lemma remdups_adj_block: "remdups_adj (x # replicate n x @ ys) = remdups_adj (x # ys)"
  by (induction n) simp_all

lemma and_then_stmt_err: "and_then (stmt e (Inl x)) f tr = (tr, Inl x)"
  by (simp add: stmt_def and_then_def lift_def)

lemma for_each_any:
  assumes "\<And>a. \<exists>evs r. list_all P evs \<and> (\<forall>tr. body a tr = (tr @ evs, r))"
  shows "\<exists>evs r. list_all P evs \<and> (\<forall>tr. for_each body as tr = (tr @ evs, r))"
proof (induction as)
  case Nil
  have "list_all P [] \<and> (\<forall>tr. for_each body [] tr = (tr @ [], Inr ()))"
    by (simp add: lift_def)
  then show ?case by blast
next
  case (Cons a as)
  obtain e1 r1 where e1: "list_all P e1" "\<And>tr. body a tr = (tr @ e1, r1)"
    using assms[of a] by blast
  obtain e2 r2 where e2: "list_all P e2" "\<And>tr. for_each body as tr = (tr @ e2, r2)"
    using Cons.IH by blast
  show ?case
  proof (cases r1)
    case (Inl e)
    then have "\<forall>tr. for_each body (a # as) tr = (tr @ e1, Inl e)"
      by (simp add: and_then_def e1(2))
    then show ?thesis using e1(1) by blast
  next
    case (Inr u)
    then have "\<forall>tr. for_each body (a # as) tr = (tr @ (e1 @ e2), r2)"
      by (simp add: and_then_def e1(2) e2(2))
    moreover have "list_all P (e1 @ e2)" using e1(1) e2(1) by simp
    ultimately show ?thesis by blast
  qed
qed

lemma and_then_appends_any:
  assumes "\<And>tr. m tr = (tr @ evs, r)"
  shows "and_then m f tr = (case r of Inl e \<Rightarrow> (tr @ evs, Inl e) | Inr a \<Rightarrow> f a (tr @ evs))"
  by (simp add: and_then_def assms split: sum.splits)

lemma remdups_adj_block_end: "remdups_adj (x # replicate n x) = [x]"
  by (induction n) simp_all

lemma to_categorical_complete:
  assumes "to_categorical y num_classes = Inr rows"
  shows "list_all (\<lambda>c. - int num_classes \<le> c \<and> c < int num_classes) y \<and> length rows = length y"
  using assms
  by (auto simp: to_categorical_def num_classes_def list_all_iff Let_def split: if_splits)

lemma one_hot_3:
  "(replicate 10 (Finite 0))[3 := Finite 1] = map Finite [0, 0, 0, 1, 0, 0, 0, 0, 0, 0]"
  by (simp add: eval_nat_numeral)

lemma one_hot_0:
  "(replicate 10 (Finite 0))[0 := Finite 1] = map Finite [1, 0, 0, 0, 0, 0, 0, 0, 0, 0]"
  by (simp add: eval_nat_numeral)

lemma one_hot_9:
  "(replicate 10 (Finite 0))[9 := Finite 1] = map Finite [0, 0, 0, 0, 0, 0, 0, 0, 0, 1]"
  by (simp add: eval_nat_numeral)

lemma one_hot_rows:
  assumes "\<forall>c \<in> set y. 0 \<le> c \<and> c < 10"
  shows "to_categorical y num_classes = Inr (map (\<lambda>c. (replicate 10 (Finite 0))[nat c := Finite 1]) y)"
proof -
  have "list_all (\<lambda>c. - int num_classes \<le> c \<and> c < int num_classes) y"
    using assms by (auto simp: list_all_iff num_classes_def)
  moreover have "map (\<lambda>c. (replicate 10 (Finite 0))[nat (c mod 10) := Finite 1]) y =
      map (\<lambda>c. (replicate 10 (Finite 0))[nat c := Finite 1]) y"
    using assms by simp
  ultimately show ?thesis by (simp add: to_categorical_value)
qed

lemma one_hot_entries:
  assumes "\<forall>c \<in> set y. 0 \<le> c \<and> c < 10"
  shows "\<exists>rows. to_categorical y num_classes = Inr rows \<and> length rows = length y \<and>
     (\<forall>i < length y. length (rows ! i) = 10 \<and>
        (\<forall>j < 10. rows ! i ! j = (if int j = y ! i then Finite 1 else Finite 0)))"
proof -
  let ?rows = "map (\<lambda>c. (replicate 10 (Finite 0))[nat c := Finite 1]) y"
  have "length (?rows ! i) = 10 \<and> (\<forall>j < 10. ?rows ! i ! j = (if int j = y ! i then Finite 1 else Finite 0))"
    if "i < length y" for i
  proof -
    have "0 \<le> y ! i" using assms that by simp
    then have "(nat (y ! i) = j) = (int j = y ! i)" for j by auto
    then show ?thesis using that by (simp add: nth_list_update)
  qed
  then show ?thesis using one_hot_rows[OF assms] by simp
qed

lemma scale_array_value:
  assumes "amax (images x_train) = Inr m"
  shows "scale_array fl x x_train = Inr \<lparr>dims = dims x, images = divide_arr fl (images x) m\<rparr>"
  using assms by (simp add: scale_array_def scale_value bind_def)

lemma scale_array_error:
  assumes "amax (images x_train) = Inl e"
  shows "scale_array fl x x_train = Inl e"
  using assms by (simp add: scale_array_def scale_def bind_def)

lemma amax_fails: "amax x = Inl e \<Longrightarrow> concat x = []"
  by (cases "concat x") (simp_all add: amax_def)

lemma to_categorical_fails:
  assumes "to_categorical y num_classes = Inl e"
  shows "\<not> list_all (\<lambda>c. - int num_classes \<le> c \<and> c < int num_classes) y"
proof
  assume "list_all (\<lambda>c. - int num_classes \<le> c \<and> c < int num_classes) y"
  then have "to_categorical y num_classes =
      Inr (map (\<lambda>c. (replicate 10 (Finite 0))[nat (c mod 10) := Finite 1]) y)"
    by (rule to_categorical_value)
  with assms show False by simp
qed

lemma to_categorical_rows:
  assumes "to_categorical y num_classes = Inr rows"
  shows "rows = map (\<lambda>c. (replicate 10 (Finite 0))[nat (c mod 10) := Finite 1]) y"
  using assms to_categorical_complete[OF assms] by (simp add: to_categorical_value)

lemma layers_compatible:
  assumes "layers m = layer15"
  shows "compatible m x = (dims x = [32, 32, 3])"
  using assms by (simp add: compatible_def tensor_defs)

lemma check_arrays_ok:
  "(check_arrays m x y = Inr u) = (compatible m x \<and> length (images x) = length y \<and> images x \<noteq> [])"
  by (simp add: check_arrays_def)

lemma flow_ok:
  assumes "flow g x y b = Inr it"
  shows "it = \<lparr>it_generator = g, it_x = x, it_y = y, it_batch_size = b\<rparr>"
    and "length (images x) = length y" and "length (dims x) = 3"
  using assms by (simp_all add: flow_def split: if_splits)

lemma flow_value:
  assumes "length (images x) = length y" and "length (dims x) = 3"
  shows "flow g x y b = Inr \<lparr>it_generator = g, it_x = x, it_y = y, it_batch_size = b\<rparr>"
  using assms by (simp add: flow_def)

lemma fit_ok:
  assumes "fit fw m it n val cbs = Inr (h, m')"
  shows "compiled m \<noteq> None" and "compatible m (it_x it)" and "images (it_x it) \<noteq> []"
    and "check_arrays m (fst val) (snd val) = Inr ()"
    and "m' = m\<lparr>epochs_trained := epochs_trained m + n\<rparr>"
  using assms
  by (auto simp: fit_def bind_def split: option.splits if_splits sum.splits)

lemma fit_ok_finite:
  assumes "fit fw m it n val cbs = Inr (h, m')" and "compiled m = Some cfg"
    and "list_ex (\<lambda>q. q = AUC \<or> q = Precision \<or> q = Recall) (cfg_metrics cfg)"
  shows "all_finite (it_x it)" and "all_finite (fst val)"
  using assms
  by (auto simp: fit_def bind_def check_predictions_def split: if_splits sum.splits)

lemma amax_positive:
  assumes "amax x = Inr m" and "list_ex (\<lambda>p. 0 < p) (concat x)"
  shows "0 < m"
proof -
  from assms(2) obtain p where "p \<in> set (concat x)" "0 < p"
    unfolding list_ex_iff by blast
  moreover have "\<forall>p \<in> set (concat x). p \<le> m" using amax_props(2)[OF assms(1)] .
  ultimately show ?thesis by force
qed

lemma divide_arr_finite:
  assumes "0 < m"
  shows "all_finite \<lparr>dims = d, images = divide_arr fl x m\<rparr>"
proof -
  have "\<not> fp_error (true_divide fl p m)" for p using assms by (simp add: true_divide_def)
  then have "\<forall>v \<in> set (concat (divide_arr fl x m)). \<not> fp_error v"
    unfolding set_concat_divide_arr by blast
  then show ?thesis by (simp add: all_finite_def list_all_iff del: set_concat)
qed

lemma show_sample_ok:
  assumes "dims xt = [32, 32, 3]" and "dims xtn = [32, 32, 3]"
    and "n < length (images xt)" and "n < length (images xtn)" and "n < length yt"
    and "length (yt ! n) = 10" and "layers m = layer15"
  shows "\<exists>evs. list_all (\<lambda>e. step_of e = Some Visualise) evs \<and>
     (\<forall>tr. show_sample fw m xt xtn yt (i, n) tr = (tr @ evs, Inr ()))"
proof -
  have "yt ! n \<noteq> []" using assms(6) by auto
  then obtain label where l: "argmax (yt ! n) = Inr label" "label < 10"
    using argmax_nonempty[of "yt ! n"] assms(6) by auto
  let ?p = "map (fw_predict fw m (images xtn ! n)) [0..<10]"
  have "?p \<noteq> []" by simp
  then obtain k where k: "argmax ?p = Inr k" "k < 10"
    using argmax_nonempty[of ?p] by auto
  have sh: "infer_shape (layers m) [] = Inr [10]"
    using assms(7) by (simp add: infer_shape_model)
  let ?evs = "[Subplot (length samples div 2) 2 (i + 1), Imshow (images xt ! n), Axis ''off'',
     Predict m \<lparr>dims = [32, 32, 3], images = [images xtn ! n]\<rparr>,
     Title (''Actual = '' @ labels ! label @ '', Predicted = '' @ labels ! k)]"
  have "show_sample fw m xt xtn yt (i, n) tr = (tr @ ?evs, Inr ())" for tr
    using assms(1-5) l k
    by (simp add: show_sample_def run_simps sample_def imshow_squeezed_def shape_def
        getitem_def bind_def predict_array_def layers_compatible[OF assms(7)]
        predict_value[OF sh] length_labels)
  moreover have "list_all (\<lambda>e. step_of e = Some Visualise) ?evs" by simp
  ultimately show ?thesis by blast
qed

lemma loop_ok:
  assumes "list_all (\<lambda>n. n < length (images xt) \<and> n < length y) samples"
    and "dims xt = [32, 32, 3]" and "layers m = layer15"
  shows "\<exists>evs. list_all (\<lambda>e. step_of e = Some Visualise) evs \<and>
     (\<forall>tr. for_each (show_sample fw m xt
                \<lparr>dims = dims xt, images = divide_arr fl (images xt) mx\<rparr>
                (map (\<lambda>c. (replicate 10 (Finite 0))[nat (c mod 10) := Finite 1]) y))
            (enumerate 0 samples) tr = (tr @ evs, Inr ()))"
proof (rule for_each_ok, rule ballI)
  fix a assume mem: "a \<in> set (enumerate 0 samples)"
  obtain i n where a: "a = (i, n)" by (cases a)
  have n: "n \<in> set samples" using mem unfolding a by (auto simp: in_set_enumerate_eq)
  from n assms(1) have b: "n < length (images xt)" "n < length y" by (auto simp: list_all_iff)
  show "\<exists>evs. list_all (\<lambda>e. step_of e = Some Visualise) evs \<and>
     (\<forall>tr. show_sample fw m xt \<lparr>dims = dims xt, images = divide_arr fl (images xt) mx\<rparr>
              (map (\<lambda>c. (replicate 10 (Finite 0))[nat (c mod 10) := Finite 1]) y) a tr =
            (tr @ evs, Inr ()))"
    unfolding a using b assms(2,3)
    by (intro show_sample_ok) (simp_all add: divide_arr_def)
qed

lemma show_sample_any:
  "\<exists>evs r. list_all (\<lambda>e. step_of e = Some Visualise) evs \<and>
     (\<forall>tr. show_sample fw m xt xtn yt (i, n) tr = (tr @ evs, r))"
  unfolding show_sample_def
  by (cases "sample xtn n"; cases "sample xt n";
      cases "imshow_squeezed (projr (sample xt n))";
      cases "bind (getitem yt n) argmax";
      cases "bind (predict_array fw m (projr (sample xtn n))) (\<lambda>p. argmax (concat p))";
      cases "getitem labels (projr (bind (getitem yt n) argmax))";
      cases "getitem labels
        (projr (bind (predict_array fw m (projr (sample xtn n))) (\<lambda>p. argmax (concat p))))";
      simp add: run_simps and_then_stmt_err)

lemma loop_any:
  "\<exists>evs r. list_all (\<lambda>e. step_of e = Some Visualise) evs \<and>
     (\<forall>tr. for_each (show_sample fw m xt xtn yt) (enumerate 0 samples) tr = (tr @ evs, r))"
proof (rule for_each_any)
  fix a :: "nat \<times> nat"
  obtain i n where a: "a = (i, n)" by (cases a)
  show "\<exists>evs r. list_all (\<lambda>e. step_of e = Some Visualise) evs \<and>
     (\<forall>tr. show_sample fw m xt xtn yt a tr = (tr @ evs, r))"
    unfolding a by (rule show_sample_any)
qed

lemma notebook_cases [case_names no_pixels bad_train_labels bad_test_labels rejected trained]:
  obtains
    (no_pixels) e where
      "\<not> encodable ((x_train, y_train), (x_test, y_test))"
      "notebook fl fw ((x_train, y_train), (x_test, y_test)) [] =
         ([Import ''tensorflow.keras'', Load_data], Inl e)"
  | (bad_train_labels) e where
      "\<not> encodable ((x_train, y_train), (x_test, y_test))"
      "notebook fl fw ((x_train, y_train), (x_test, y_test)) [] =
         ([Import ''tensorflow.keras'', Load_data,
           Normalize ''x_train_norm'', Normalize ''x_test_norm'',
           Print [PStr ''x_train shape:'', PShape (shape x_train)],
           Print [PNat (length (images x_train)), PStr ''train samples''],
           Print [PNat (length (images x_test)), PStr ''test samples'']], Inl e)"
  | (bad_test_labels) e where
      "\<not> encodable ((x_train, y_train), (x_test, y_test))"
      "notebook fl fw ((x_train, y_train), (x_test, y_test)) [] =
         ([Import ''tensorflow.keras'', Load_data,
           Normalize ''x_train_norm'', Normalize ''x_test_norm'',
           Print [PStr ''x_train shape:'', PShape (shape x_train)],
           Print [PNat (length (images x_train)), PStr ''train samples''],
           Print [PNat (length (images x_test)), PStr ''test samples''],
           One_hot ''y_train''], Inl e)"
  | (rejected) e where
      "\<not> trainable ((x_train, y_train), (x_test, y_test))"
      "notebook fl fw ((x_train, y_train), (x_test, y_test)) [] =
         ([Import ''tensorflow.keras'', Load_data,
           Normalize ''x_train_norm'', Normalize ''x_test_norm'',
           Print [PStr ''x_train shape:'', PShape (shape x_train)],
           Print [PNat (length (images x_train)), PStr ''train samples''],
           Print [PNat (length (images x_test)), PStr ''test samples''],
           One_hot ''y_train'', One_hot ''y_test'',
           Build \<lparr>layers = layer15, compiled = None, epochs_trained = 0\<rparr>,
           Compile \<lparr>layers = layer15,
             compiled = Some \<lparr>cfg_loss = Categorical_crossentropy,
               cfg_optimizer = Adam (1 / 100000),
               cfg_metrics = [Accuracy, AUC, Precision, Recall]\<rparr>,
             epochs_trained = 0\<rparr>,
           Summary recorded_summary,
           Magic ''load_ext tensorboard'', Magic ''tensorboard --logdir logs''], Inl e)"
  | (trained) x_train_norm x_test_norm y_train_hot y_test_hot it history m1 m2 preds evs r where
      "m1 = \<lparr>layers = layer15,
             compiled = Some \<lparr>cfg_loss = Categorical_crossentropy,
               cfg_optimizer = Adam (1 / 100000),
               cfg_metrics = [Accuracy, AUC, Precision, Recall]\<rparr>,
             epochs_trained = 0\<rparr>"
      "scale_array fl x_train x_train = Inr x_train_norm"
      "scale_array fl x_test x_train = Inr x_test_norm"
      "to_categorical y_train num_classes = Inr y_train_hot"
      "to_categorical y_test num_classes = Inr y_test_hot"
      "flow datagen x_train_norm y_train_hot batch_size = Inr it"
      "fit fw m1 it epochs (x_test_norm, y_test_hot) [tb_log] = Inr (history, m2)"
      "list_all (\<lambda>e. step_of e = Some Visualise) evs"
      "list_all (\<lambda>n. n < length y_test) samples \<longrightarrow> r = Inr ()"
      "notebook fl fw ((x_train, y_train), (x_test, y_test)) [] =
         ([Import ''tensorflow.keras'', Load_data,
           Normalize ''x_train_norm'', Normalize ''x_test_norm'',
           Print [PStr ''x_train shape:'', PShape (shape x_train)],
           Print [PNat (length (images x_train)), PStr ''train samples''],
           Print [PNat (length (images x_test)), PStr ''test samples''],
           One_hot ''y_train'', One_hot ''y_test'',
           Build \<lparr>layers = layer15, compiled = None, epochs_trained = 0\<rparr>,
           Compile m1, Summary recorded_summary,
           Magic ''load_ext tensorboard'', Magic ''tensorboard --logdir logs'',
           Fit m1 it 14 (x_test_norm, y_test_hot) [tb_log],
           Evaluate m2 x_test_norm y_test_hot,
           Print [PStr ''Test loss:'',
             PNum (fw_evaluate fw m2 x_test_norm y_test_hot Loss)],
           Print [PStr ''Test accuracy:'',
             PNum (fw_evaluate fw m2 x_test_norm y_test_hot (Metric Accuracy))],
           Print [PStr ''Test AUC:'',
             PNum (fw_evaluate fw m2 x_test_norm y_test_hot (Metric AUC))],
           Print [PStr ''Test Precision:'',
             PNum (fw_evaluate fw m2 x_test_norm y_test_hot (Metric Precision))],
           Print [PStr ''Test Recall:'',
             PNum (fw_evaluate fw m2 x_test_norm y_test_hot (Metric Recall))],
           Import ''matplotlib.pyplot'', Magic ''matplotlib inline'',
           Plot [([1..<15], map (fw_history fw m1 it ''loss'') [0..<14]),
                 ([1..<15], map (fw_history fw m1 it ''val_loss'') [0..<14])],
           Legend [''training loss'', ''testing loss''], Title ''Loss curve'',
           Xlabel ''Epoch'', Ylabel ''Loss'',
           Predict m2 x_test_norm, Print [PLabels preds],
           Import ''numpy'', Subplots 4 2] @ evs @
          (if r = Inr () then [Save m2 ''my_vgg_model'', Shell ''ls my_vgg_model''] else []), r)"
proof (cases "amax (images x_train)")
  case (Inl e)
  then have "concat (images x_train) = []" by (rule amax_fails)
  then have ne: "\<not> encodable ((x_train, y_train), (x_test, y_test))"
    by (simp add: encodable_def del: concat_eq_Nil_conv)
  have "scale_array fl x x_train = Inl e" for x using Inl by (rule scale_array_error)
  then have "notebook fl fw ((x_train, y_train), (x_test, y_test)) [] =
         ([Import ''tensorflow.keras'', Load_data], Inl e)"
    unfolding notebook_def by (simp add: run_simps and_then_stmt_err)
  with ne show thesis by (rule no_pixels)
next
  case (Inr mx)
  define xn where "xn = \<lparr>dims = dims x_train, images = divide_arr fl (images x_train) mx\<rparr>"
  define xtn where "xtn = \<lparr>dims = dims x_test, images = divide_arr fl (images x_test) mx\<rparr>"
  have s1: "scale_array fl x_train x_train = Inr xn"
    and s2: "scale_array fl x_test x_train = Inr xtn"
    unfolding xn_def xtn_def using Inr by (simp_all add: scale_array_value)
  have ln: "length (images xn) = length (images x_train)" "dims xn = dims x_train"
    and ltn: "length (images xtn) = length (images x_test)" "dims xtn = dims x_test"
    by (simp_all add: xn_def xtn_def divide_arr_def)
  show thesis
  proof (cases "to_categorical y_train num_classes")
    case (Inl e)
    then have "\<not> list_all (\<lambda>c. - int num_classes \<le> c \<and> c < int num_classes) y_train"
      by (rule to_categorical_fails)
    then have ne: "\<not> encodable ((x_train, y_train), (x_test, y_test))"
      by (simp add: encodable_def)
    have "notebook fl fw ((x_train, y_train), (x_test, y_test)) [] =
         ([Import ''tensorflow.keras'', Load_data,
           Normalize ''x_train_norm'', Normalize ''x_test_norm'',
           Print [PStr ''x_train shape:'', PShape (shape x_train)],
           Print [PNat (length (images x_train)), PStr ''train samples''],
           Print [PNat (length (images x_test)), PStr ''test samples'']], Inl e)"
      unfolding notebook_def by (simp add: run_simps and_then_stmt_err s1 s2 Inl shape_def)
    with ne show thesis by (rule bad_train_labels)
  next
    case a: (Inr a)
    have la: "length a = length y_train" using to_categorical_complete[OF a] by simp
    show thesis
    proof (cases "to_categorical y_test num_classes")
      case (Inl e)
      then have "\<not> list_all (\<lambda>c. - int num_classes \<le> c \<and> c < int num_classes) y_test"
        by (rule to_categorical_fails)
      then have ne: "\<not> encodable ((x_train, y_train), (x_test, y_test))"
        by (simp add: encodable_def)
      have "notebook fl fw ((x_train, y_train), (x_test, y_test)) [] =
         ([Import ''tensorflow.keras'', Load_data,
           Normalize ''x_train_norm'', Normalize ''x_test_norm'',
           Print [PStr ''x_train shape:'', PShape (shape x_train)],
           Print [PNat (length (images x_train)), PStr ''train samples''],
           Print [PNat (length (images x_test)), PStr ''test samples''],
           One_hot ''y_train''], Inl e)"
        unfolding notebook_def by (simp add: run_simps and_then_stmt_err s1 s2 a Inl shape_def)
      with ne show thesis by (rule bad_test_labels)
    next
      case b: (Inr b)
      have lb: "length b = length y_test" using to_categorical_complete[OF b] by simp
      have rb: "b = map (\<lambda>c. (replicate 10 (Finite 0))[nat (c mod 10) := Finite 1]) y_test"
        using b by (rule to_categorical_rows)
      define m1 where "m1 = \<lparr>layers = layer15,
             compiled = Some \<lparr>cfg_loss = Categorical_crossentropy,
               cfg_optimizer = Adam (1 / 100000),
               cfg_metrics = [Accuracy, AUC, Precision, Recall]\<rparr>,
             epochs_trained = 0\<rparr>"
      have l1: "layers m1 = layer15" by (simp add: m1_def)
      define m2 where "m2 = \<lparr>layers = layer15,
             compiled = Some \<lparr>cfg_loss = Categorical_crossentropy,
               cfg_optimizer = Adam (1 / 100000),
               cfg_metrics = [Accuracy, AUC, Precision, Recall]\<rparr>,
             epochs_trained = 14\<rparr>"
      have l2: "layers m2 = layer15" by (simp add: m2_def)
      show thesis
      proof (cases "flow datagen xn a batch_size")
        case (Inl e)
        then have f: "flow datagen xn a 128 = Inl e" by (simp add: batch_size_def)
        have nt: "\<not> trainable ((x_train, y_train), (x_test, y_test))"
        proof
          assume "trainable ((x_train, y_train), (x_test, y_test))"
          then have "length (images xn) = length a" and "length (dims xn) = 3"
            using ln la by (simp_all add: trainable_def input_shape_def)
          then have "flow datagen xn a batch_size \<noteq> Inl e" by (simp add: flow_value)
          with Inl show False by simp
        qed
        have "notebook fl fw ((x_train, y_train), (x_test, y_test)) [] =
         ([Import ''tensorflow.keras'', Load_data,
           Normalize ''x_train_norm'', Normalize ''x_test_norm'',
           Print [PStr ''x_train shape:'', PShape (shape x_train)],
           Print [PNat (length (images x_train)), PStr ''train samples''],
           Print [PNat (length (images x_test)), PStr ''test samples''],
           One_hot ''y_train'', One_hot ''y_test'',
           Build \<lparr>layers = layer15, compiled = None, epochs_trained = 0\<rparr>,
           Compile \<lparr>layers = layer15,
             compiled = Some \<lparr>cfg_loss = Categorical_crossentropy,
               cfg_optimizer = Adam (1 / 100000),
               cfg_metrics = [Accuracy, AUC, Precision, Recall]\<rparr>,
             epochs_trained = 0\<rparr>,
           Summary recorded_summary,
           Magic ''load_ext tensorboard'', Magic ''tensorboard --logdir logs''], Inl e)"
          unfolding notebook_def
          by (simp add: run_simps and_then_stmt_err s1 s2 a b model_value shape_def
              compile_def summary_rows_model epochs_def batch_size_def f)
        with nt show thesis by (rule rejected)
      next
        case it: (Inr it)
        have it_eq: "it = \<lparr>it_generator = datagen, it_x = xn, it_y = a, it_batch_size = 128\<rparr>"
          using flow_ok(1)[OF it] by (simp add: batch_size_def)
        have f: "flow datagen xn a 128 = Inr it" using it by (simp add: batch_size_def)
        show thesis
        proof (cases "fit fw m1 it epochs (xtn, b) [tb_log]")
          case (Inl e)
          then have ft: "fit fw m1 it 14 (xtn, b) [tb_log] = Inl e" by (simp add: epochs_def)
          have nt: "\<not> trainable ((x_train, y_train), (x_test, y_test))"
          proof
            assume t: "trainable ((x_train, y_train), (x_test, y_test))"
            then have "concat (images x_train) \<noteq> []"
              by (simp add: trainable_def encodable_def del: concat_eq_Nil_conv)
            then have "images x_train \<noteq> []" by auto
            then have "images xn \<noteq> []" using ln(1) by auto
            moreover have "dims xn = [32, 32, 3]" "dims xtn = [32, 32, 3]"
              "length (images xtn) = length b" "images xtn \<noteq> []"
              using t ln ltn lb
              by (auto simp: trainable_def input_shape_def img_rows_def img_cols_def
                  n_channels_def)
            moreover have "0 < mx"
              using t amax_positive[OF \<open>amax (images x_train) = Inr mx\<close>]
              by (simp add: trainable_def)
            then have "all_finite xn" "all_finite xtn"
              unfolding xn_def xtn_def by (simp_all add: divide_arr_finite)
            ultimately have "fit fw m1 it epochs (xtn, b) [tb_log] \<noteq> Inl e"
              by (simp add: fit_def m1_def it_eq check_arrays_def check_predictions_def
                  bind_def layers_compatible)
            with Inl show False by simp
          qed
          have "notebook fl fw ((x_train, y_train), (x_test, y_test)) [] =
           ([Import ''tensorflow.keras'', Load_data,
             Normalize ''x_train_norm'', Normalize ''x_test_norm'',
             Print [PStr ''x_train shape:'', PShape (shape x_train)],
             Print [PNat (length (images x_train)), PStr ''train samples''],
             Print [PNat (length (images x_test)), PStr ''test samples''],
             One_hot ''y_train'', One_hot ''y_test'',
             Build \<lparr>layers = layer15, compiled = None, epochs_trained = 0\<rparr>,
             Compile \<lparr>layers = layer15,
               compiled = Some \<lparr>cfg_loss = Categorical_crossentropy,
                 cfg_optimizer = Adam (1 / 100000),
                 cfg_metrics = [Accuracy, AUC, Precision, Recall]\<rparr>,
               epochs_trained = 0\<rparr>,
             Summary recorded_summary,
             Magic ''load_ext tensorboard'', Magic ''tensorboard --logdir logs''], Inl e)"
            unfolding notebook_def
            by (simp add: run_simps and_then_stmt_err s1 s2 a b model_value shape_def
                compile_def summary_rows_model epochs_def batch_size_def f
                ft[unfolded m1_def])
          with nt show thesis by (rule rejected)
        next
          case (Inr hm)
          obtain h m' where hm: "hm = (h, m')" by (cases hm)
          have fit_eq: "fit fw m1 it epochs (xtn, b) [tb_log] = Inr (h, m')"
            using Inr hm by simp
          have m': "m' = m2"
            using fit_ok(5)[OF fit_eq] by (simp add: m1_def m2_def epochs_def)
          have c1: "compatible m1 (it_x it)" and c2: "images (it_x it) \<noteq> []"
            and c3: "check_arrays m1 (fst (xtn, b)) (snd (xtn, b)) = Inr ()"
            using fit_ok(2-4)[OF fit_eq] by simp_all
          have dn: "dims xn = [32, 32, 3]" and nn: "images xn \<noteq> []"
            using c1 c2 by (simp_all add: it_eq layers_compatible[OF l1])
          have dtn: "dims xtn = [32, 32, 3]" and ntn: "images xtn \<noteq> []"
            and etn: "length (images xtn) = length b"
            using c3 by (simp_all add: check_arrays_ok layers_compatible[OF l1])
          have fn: "all_finite xn" and ftn: "all_finite xtn"
            using fit_ok_finite[OF fit_eq, of "\<lparr>cfg_loss = Categorical_crossentropy,
               cfg_optimizer = Adam (1 / 100000),
               cfg_metrics = [Accuracy, AUC, Precision, Recall]\<rparr>"]
            by (simp_all add: m1_def it_eq)
          have sh2: "infer_shape (layers m2) [] = Inr [10]"
            by (simp add: m2_def infer_shape_model)
          have "\<exists>k. argmax (map (fw_predict fw m2 img) [0..<10]) = Inr k" for img
            using argmax_nonempty[of "map (fw_predict fw m2 img) [0..<10]"] by auto
          then have "\<forall>row \<in> set (map (\<lambda>img. map (fw_predict fw m2 img) [0..<10])
              (images xtn)). \<exists>k. argmax row = Inr k"
            by simp
          then obtain preds where preds: "map_err argmax
              (map (\<lambda>img. map (fw_predict fw m2 img) [0..<10]) (images xtn)) = Inr preds"
            using map_err_ok by blast
          obtain evs r where vis: "list_all (\<lambda>e. step_of e = Some Visualise) evs"
            and loop: "\<And>tr. for_each (show_sample fw m2 x_test xtn b)
                (enumerate 0 samples) tr = (tr @ evs, r)"
            using loop_any by blast
          have completes: "list_all (\<lambda>n. n < length y_test) samples \<longrightarrow> r = Inr ()"
          proof
            assume "list_all (\<lambda>n. n < length y_test) samples"
            then have "list_all (\<lambda>n. n < length (images x_test) \<and> n < length y_test) samples"
              using etn ltn(1) lb by simp
            moreover have "dims x_test = [32, 32, 3]" using dtn ltn(2) by simp
            ultimately obtain evs' where
              "\<And>tr. for_each (show_sample fw m2 x_test xtn b) (enumerate 0 samples) tr =
                 (tr @ evs', Inr ())"
              unfolding xtn_def rb using loop_ok[OF _ _ l2, of x_test y_test fw fl mx] by blast
            from this[of "[]"] loop[of "[]"] show "r = Inr ()" by simp
          qed
          have ls: "length samples div 2 = 4" by (simp add: samples_def)
          have run: "notebook fl fw ((x_train, y_train), (x_test, y_test)) [] =
           ([Import ''tensorflow.keras'', Load_data,
             Normalize ''x_train_norm'', Normalize ''x_test_norm'',
             Print [PStr ''x_train shape:'', PShape (shape x_train)],
             Print [PNat (length (images x_train)), PStr ''train samples''],
             Print [PNat (length (images x_test)), PStr ''test samples''],
             One_hot ''y_train'', One_hot ''y_test'',
             Build \<lparr>layers = layer15, compiled = None, epochs_trained = 0\<rparr>,
             Compile m1, Summary recorded_summary,
             Magic ''load_ext tensorboard'', Magic ''tensorboard --logdir logs'',
             Fit m1 it 14 (xtn, b) [tb_log],
             Evaluate m2 xtn b,
             Print [PStr ''Test loss:'', PNum (fw_evaluate fw m2 xtn b Loss)],
             Print [PStr ''Test accuracy:'', PNum (fw_evaluate fw m2 xtn b (Metric Accuracy))],
             Print [PStr ''Test AUC:'', PNum (fw_evaluate fw m2 xtn b (Metric AUC))],
             Print [PStr ''Test Precision:'', PNum (fw_evaluate fw m2 xtn b (Metric Precision))],
             Print [PStr ''Test Recall:'', PNum (fw_evaluate fw m2 xtn b (Metric Recall))],
             Import ''matplotlib.pyplot'', Magic ''matplotlib inline'',
             Plot [([1..<15], map (fw_history fw m1 it ''loss'') [0..<14]),
                   ([1..<15], map (fw_history fw m1 it ''val_loss'') [0..<14])],
             Legend [''training loss'', ''testing loss''], Title ''Loss curve'',
             Xlabel ''Epoch'', Ylabel ''Loss'',
             Predict m2 xtn, Print [PLabels preds],
             Import ''numpy'', Subplots 4 2] @ evs @
            (if r = Inr () then [Save m2 ''my_vgg_model'', Shell ''ls my_vgg_model''] else []), r)"
            unfolding notebook_def
            by (cases r)
              (simp_all add: run_simps s1 s2 a b model_value shape_def compile_def fit_def
                evaluate_def check_arrays_def check_predictions_def fn ftn reported_def summary_rows_model epochs_def
                batch_size_def getitem_def lookup_def plot_def bind_def f it_eq m1_def m2_def
                layers_compatible dn nn dtn ntn etn predict_array_def
                predict_value[OF sh2, unfolded m2_def] preds[unfolded m2_def]
                and_then_appends_any[OF loop, unfolded m2_def] ls)
          show thesis
            using m1_def s1 s2 a b it fit_eq[unfolded m'] vis completes run by (rule trained)
        qed
      qed
    qed
  qed
qed

lemma fit_history:
  assumes "fit fw m it n val cbs = Inr (h, m')" and "compiled m = Some cfg"
  shows "h = map_of (concat (map (\<lambda>q.
                  [(quantity_name q, map (fw_history fw m it (quantity_name q)) [0..<n]),
                   (''val_'' @ quantity_name q,
                    map (fw_history fw m it (''val_'' @ quantity_name q)) [0..<n])])
                (reported cfg)))"
  using assms by (auto simp: fit_def bind_def split: if_splits sum.splits)

lemma evaluate_after_fit:
  assumes "fit fw m it n (x, y) cbs = Inr (h, m')" and "compiled m = Some cfg"
  shows "evaluate fw m' x y = Inr (map (fw_evaluate fw m' x y) (reported cfg))"
proof -
  have m': "m' = m\<lparr>epochs_trained := epochs_trained m + n\<rparr>"
    using fit_ok(5)[OF assms(1)] .
  have "check_arrays m x y = Inr ()" using fit_ok(4)[OF assms(1)] by simp
  then have c: "check_arrays m' x y = Inr ()"
    unfolding m' by (simp add: check_arrays_def compatible_def)
  have p: "check_predictions cfg x = Inr ()"
    using assms by (auto simp: fit_def bind_def split: if_splits sum.splits)
  show ?thesis using assms(2) c p by (simp add: evaluate_def m' bind_def)
qed

lemma funpow_max: "(max (p::nat) ^^ k) p = p"
  by (induction k) simp_all

lemma amax_replicate:
  assumes "0 < n" shows "amax [replicate n p] = Inr p"
proof -
  obtain k where "n = Suc k" using assms by (cases n) auto
  then show ?thesis by (simp add: amax_def funpow_max)
qed

lemma encodable_example: "encodable example_dataset"
  by (simp add: encodable_def example_dataset_def well_shaped_def num_classes_def
      list_all_iff)

lemma trainable_example: "trainable example_dataset"
  using encodable_example
  by (simp add: trainable_def example_dataset_def input_shape_def img_rows_def img_cols_def
      n_channels_def list_ex_iff)

lemma loadable_example: "loadable example_dataset"
  using trainable_example by (simp add: loadable_def example_dataset_def samples_def)

lemma scale_array_example:
  "scale_array (\<lambda>q. q) \<lparr>dims = [32, 32, 3], images = [replicate 3072 255]\<rparr>
     \<lparr>dims = [32, 32, 3], images = [replicate 3072 255]\<rparr> =
   Inr \<lparr>dims = [32, 32, 3], images = [replicate 3072 (Finite 1)]\<rparr>"
  by (simp add: scale_array_def scale_def amax_replicate bind_def divide_arr_def
      true_divide_def)

subsection \<open>The declared topology\<close>

text \<open>
  Claim C1. The model that \<open>Model(inputs=[inputs], outputs=[layer15])\<close> builds exists, and
  its layers are, in order and with nothing else: the input of shape \<open>(32, 32, 3)\<close>, two
  64-filter 3x3 convolutions, a 2x2 max-pooling, two 96-filter 3x3 convolutions, a 2x2
  max-pooling, two 192-filter 3x3 and one 192-filter 1x1 convolutions, a 2x2
  max-pooling, two 224-filter 3x3 and one 224-filter 1x1 convolutions (every convolution
  with \<open>same\<close> padding and ReLU), then Flatten, Dense(1024, relu), Dropout(0.5),
  Dense(1024, relu) and Dense(10, softmax).
\<close>

theorem model_is_declared_sequence:
  "\<exists>m. model = Inr m \<and> layers m =
      [InputLayer [32, 32, 3] ''input_images''] @
      replicate 2 (Conv2D 64 (3,3) Relu Same) @ [MaxPooling2D (2,2)] @
      replicate 2 (Conv2D 96 (3,3) Relu Same) @ [MaxPooling2D (2,2)] @
      replicate 2 (Conv2D 192 (3,3) Relu Same) @ [Conv2D 192 (1,1) Relu Same] @
      [MaxPooling2D (2,2)] @
      replicate 2 (Conv2D 224 (3,3) Relu Same) @ [Conv2D 224 (1,1) Relu Same] @
      [Flatten, Dense 1024 Relu, Dropout (1/2), Dense 1024 Relu, Dense 10 Softmax]"
  by (simp add: model_value tensor_defs numeral_2_eq_2)

subsection \<open>The number of parameters\<close>

text \<open>
  Claim C8. The declared topology has 6,332,650 trainable parameters and no other ones.
  Layer by layer, the shapes and counts computed from the layers are the rows the
  notebook recorded from \<open>model.summary()\<close>; the ten convolutions contribute
  \<open>(kh * kw * c_in + 1) * c_out\<close> each; the three poolings take the 32x32 grid to 4x4,
  so that Flatten yields \<open>4 * 4 * 224 = 3584\<close> features; the dense layers contribute
  \<open>(3584 + 1) * 1024\<close>, \<open>(1024 + 1) * 1024\<close> and \<open>(1024 + 1) * 10\<close>; and the rows sum to
  the recorded total.
\<close>

theorem model_parameter_count:
  "\<exists>m. model = Inr m \<and>
     summary_rows (layers m) [] = Inr recorded_summary \<and>
     count_trainable (layers m) [] = Inr 6332650 \<and>
     count_non_trainable (layers m) [] = Inr 0 \<and>
     map (\<lambda>r. snd (snd r)) (filter (\<lambda>r. fst r = ''Conv2D'') recorded_summary) =
       [(3 * 3 * 3 + 1) * 64, (3 * 3 * 64 + 1) * 64,
        (3 * 3 * 64 + 1) * 96, (3 * 3 * 96 + 1) * 96,
        (3 * 3 * 96 + 1) * 192, (3 * 3 * 192 + 1) * 192, (1 * 1 * 192 + 1) * 192,
        (3 * 3 * 192 + 1) * 224, (3 * 3 * 224 + 1) * 224, (1 * 1 * 224 + 1) * 224] \<and>
     infer_shape (take 1 (layers m)) [] = Inr [32, 32, 3] \<and>
     infer_shape (take 14 (layers m)) [] = Inr [4, 4, 224] \<and>
     infer_shape (take 15 (layers m)) [] = Inr [4 * 4 * 224] \<and>
     4 * 4 * 224 = (3584::nat) \<and>
     map (\<lambda>r. snd (snd r)) (drop 15 recorded_summary) =
       [(3584 + 1) * 1024, 0, (1024 + 1) * 1024, (1024 + 1) * 10] \<and>
     sum_list (map (\<lambda>r. snd (snd r)) recorded_summary) = 6332650 \<and>
     recorded_total_params = 6332650 \<and>
     recorded_trainable_params = 6332650 \<and>
     recorded_non_trainable_params = 0"
proof -
  have "map (\<lambda>r. snd (snd r)) (filter (\<lambda>r. fst r = ''Conv2D'') recorded_summary) =
       [(3 * 3 * 3 + 1) * 64, (3 * 3 * 64 + 1) * 64,
        (3 * 3 * 64 + 1) * 96, (3 * 3 * 96 + 1) * 96,
        (3 * 3 * 96 + 1) * 192, (3 * 3 * 192 + 1) * 192, (1 * 1 * 192 + 1) * 192,
        (3 * 3 * 192 + 1) * 224, (3 * 3 * 224 + 1) * 224, (1 * 1 * 224 + 1) * 224]"
    by (simp add: recorded_summary_def)
  moreover have "infer_shape (take 1 layer15) [] = Inr [32, 32, 3]"
    by (simp add: tensor_defs bind_def)
  moreover have "infer_shape (take 14 layer15) [] = Inr [4, 4, 224]"
    by (simp add: tensor_defs bind_def)
  moreover have "infer_shape (take 15 layer15) [] = Inr [4 * 4 * 224]"
    by (simp add: tensor_defs bind_def)
  moreover have "map (\<lambda>r. snd (snd r)) (drop 15 recorded_summary) =
       [(3584 + 1) * 1024, 0, (1024 + 1) * 1024, (1024 + 1) * 10]"
    by (simp add: recorded_summary_def)
  moreover have "sum_list (map (\<lambda>r. snd (snd r)) recorded_summary) = 6332650"
    by (simp add: recorded_summary_def)
  ultimately show ?thesis
    by (simp add: model_value summary_rows_model count_trainable_model
        count_non_trainable_model recorded_total_params_def recorded_trainable_params_def
        recorded_non_trainable_params_def)
qed

subsection \<open>The range of the normalised images\<close>


text \<open>
  Where the range does hold. Let the rounding \<open>fl\<close> of the float format be monotone and
  leave 0 and 1 unchanged, and let the training set hold a pixel above zero. Then both
  normalisation statements succeed, both arrays are the elementwise quotients by
  \<open>x_train.max()\<close>, every element of \<open>x_train_norm\<close> lies in \<open>[0, 1]\<close>, every element of
  \<open>x_test_norm\<close> is finite and not negative, and every element of \<open>x_test_norm\<close> lies in
  \<open>[0, 1]\<close> when no test pixel exceeds the training maximum.
\<close>

lemma normalized_range:
  assumes "mono fl" and "fl 0 = 0" and "fl 1 = 1"
    and "\<exists>p \<in> set (concat x_train). 0 < p"
  shows "\<exists>m x_train_norm x_test_norm.
      amax x_train = Inr m \<and>
      scale fl x_train x_train = Inr x_train_norm \<and>
      scale fl x_test x_train = Inr x_test_norm \<and>
      x_train_norm = map (map (\<lambda>p. true_divide fl p m)) x_train \<and>
      x_test_norm = map (map (\<lambda>p. true_divide fl p m)) x_test \<and>
      (\<forall>v \<in> set (concat x_train_norm). in_unit_interval v) \<and>
      (\<forall>v \<in> set (concat x_test_norm). non_negative v \<and> \<not> fp_error v) \<and>
      ((\<forall>p \<in> set (concat x_test). p \<le> m) \<longrightarrow>
         (\<forall>v \<in> set (concat x_test_norm). in_unit_interval v))"
proof -
  from assms(4) have "concat x_train \<noteq> []" by (rule nonempty_if_member)
  then obtain m where m: "amax x_train = Inr m" using amax_ok by blast
  have le: "\<forall>p \<in> set (concat x_train). p \<le> m" using amax_props(2)[OF m] .
  with assms(4) have pos: "0 < m" by force
  have tr: "\<forall>v \<in> set (concat (divide_arr fl x_train m)). in_unit_interval v"
    unfolding set_concat_divide_arr using le true_divide_unit[OF assms(1-3) pos] by blast
  have te: "\<forall>v \<in> set (concat (divide_arr fl x_test m)). non_negative v \<and> \<not> fp_error v"
    unfolding set_concat_divide_arr using true_divide_nonneg[OF assms(1,2) pos] by blast
  have te1: "(\<forall>p \<in> set (concat x_test). p \<le> m) \<longrightarrow>
         (\<forall>v \<in> set (concat (divide_arr fl x_test m)). in_unit_interval v)"
    unfolding set_concat_divide_arr using true_divide_unit[OF assms(1-3) pos] by blast
  have s1: "scale fl x_train x_train = Inr (divide_arr fl x_train m)"
    and s2: "scale fl x_test x_train = Inr (divide_arr fl x_test m)"
    using m by (simp_all add: scale_value)
  have d: "divide_arr fl x m = map (map (\<lambda>p. true_divide fl p m)) x" for x
    by (simp add: divide_arr_def)
  have "amax x_train = Inr m \<and>
      scale fl x_train x_train = Inr (divide_arr fl x_train m) \<and>
      scale fl x_test x_train = Inr (divide_arr fl x_test m) \<and>
      divide_arr fl x_train m = map (map (\<lambda>p. true_divide fl p m)) x_train \<and>
      divide_arr fl x_test m = map (map (\<lambda>p. true_divide fl p m)) x_test \<and>
      (\<forall>v \<in> set (concat (divide_arr fl x_train m)). in_unit_interval v) \<and>
      (\<forall>v \<in> set (concat (divide_arr fl x_test m)). non_negative v \<and> \<not> fp_error v) \<and>
      ((\<forall>p \<in> set (concat x_test). p \<le> m) \<longrightarrow>
         (\<forall>v \<in> set (concat (divide_arr fl x_test m)). in_unit_interval v))"
    using m s1 s2 d[of x_train] d[of x_test] tr te te1 by (simp only: simp_thms)
  then show ?thesis by (intro exI)
qed

lemma normalized_range_example:
  "mono (\<lambda>q::rat. q) \<and> (\<exists>p \<in> set (concat [[1, 2::nat]]). 0 < p) \<and>
   amax [[1, 2]] = Inr 2 \<and>
   scale (\<lambda>q. q) [[1, 2]] [[1, 2]] = Inr [[Finite (1 / 2), Finite 1]] \<and>
   scale (\<lambda>q. q) [[2, 0]] [[1, 2]] = Inr [[Finite 1, Finite 0]] \<and>
   list_all in_unit_interval (concat [[Finite (1 / 2), Finite 1]]) \<and>
   list_all in_unit_interval (concat [[Finite 1, Finite 0]])"
proof -
  have h: "mono (\<lambda>q::rat. q)" by (simp add: mono_def)
  have e: "\<exists>p \<in> set (concat [[1, 2::nat]]). 0 < p" by simp
  note t = normalized_range[OF h refl refl e, of "[[2, 0]]"]
  have c: "amax [[1, 2]] = Inr 2 \<and>
      scale (\<lambda>q. q) [[1, 2]] [[1, 2]] = Inr [[Finite (1 / 2), Finite 1]] \<and>
      scale (\<lambda>q. q) [[2, 0]] [[1, 2]] = Inr [[Finite 1, Finite 0]] \<and>
      list_all in_unit_interval (concat [[Finite (1 / 2), Finite 1]]) \<and>
      list_all in_unit_interval (concat [[Finite 1, Finite 0]])"
    by (simp add: scale_def amax_def bind_def divide_arr_def true_divide_def)
  show ?thesis using t by (simp only: h e c simp_thms)
qed

subsection \<open>The unguarded division\<close>

text \<open>
  Claim C10. Nothing guards the divisor \<open>x_train.max()\<close>. The two normalisation statements
  complete without a floating-point error on any element exactly when the training set
  holds a pixel above zero. When the training set holds pixels and all of them are zero,
  the divisor is 0 and the division takes its error branch on every element: each
  element of \<open>x_train_norm\<close> is \<open>nan\<close>, each element of \<open>x_test_norm\<close> is \<open>nan\<close> or \<open>inf\<close>.
\<close>

theorem division_needs_positive_pixel:
  "((\<exists>a b. scale fl x_train x_train = Inr a \<and> scale fl x_test x_train = Inr b \<and>
        \<not> (\<exists>v \<in> set (concat a) \<union> set (concat b). fp_error v))
      \<longleftrightarrow> (\<exists>p \<in> set (concat x_train). 0 < p)) \<and>
   (concat x_train \<noteq> [] \<and> (\<forall>p \<in> set (concat x_train). p = 0) \<longrightarrow>
      amax x_train = Inr 0 \<and>
      scale fl x_train x_train = Inr (map (map (\<lambda>p. NaN)) x_train) \<and>
      (\<exists>b. scale fl x_test x_train = Inr b \<and> (\<forall>v \<in> set (concat b). fp_error v)))"
proof (intro conjI iffI impI)
  assume "\<exists>a b. scale fl x_train x_train = Inr a \<and> scale fl x_test x_train = Inr b \<and>
        \<not> (\<exists>v \<in> set (concat a) \<union> set (concat b). fp_error v)"
  then obtain a b where a: "scale fl x_train x_train = Inr a"
    and ok: "\<forall>v \<in> set (concat a). \<not> fp_error v" by auto
  from a obtain m where m: "amax x_train = Inr m"
    by (cases "amax x_train") (auto simp: scale_def bind_def)
  have mem: "m \<in> set (concat x_train)" using amax_props(1)[OF m] .
  have "a = divide_arr fl x_train m" using a m by (simp add: scale_value)
  moreover have "true_divide fl m m \<in> set (concat (divide_arr fl x_train m))"
    unfolding set_concat_divide_arr using mem by (rule imageI)
  ultimately have "true_divide fl m m \<in> set (concat a)" by simp
  then have "\<not> fp_error (true_divide fl m m)"
    using ok by blast
  then have "0 < m" by (auto simp: true_divide_def split: if_splits)
  with mem show "\<exists>p \<in> set (concat x_train). 0 < p" by blast
next
  assume pos: "\<exists>p \<in> set (concat x_train). 0 < p"
  then have "concat x_train \<noteq> []" by (rule nonempty_if_member)
  then obtain m where m: "amax x_train = Inr m" using amax_ok by blast
  have "\<forall>p \<in> set (concat x_train). p \<le> m" using amax_props(2)[OF m] .
  with pos have "0 < m" by force
  then have nf: "\<not> fp_error (true_divide fl p m)" for p by (simp add: true_divide_def)
  have "\<not> (\<exists>v \<in> set (concat (divide_arr fl x_train m)) \<union>
        set (concat (divide_arr fl x_test m)). fp_error v)"
    unfolding set_concat_divide_arr using nf by blast
  then show "\<exists>a b. scale fl x_train x_train = Inr a \<and> scale fl x_test x_train = Inr b \<and>
        \<not> (\<exists>v \<in> set (concat a) \<union> set (concat b). fp_error v)"
    using scale_value[OF m] by blast
next
  assume z: "concat x_train \<noteq> [] \<and> (\<forall>p \<in> set (concat x_train). p = 0)"
  then obtain m where m: "amax x_train = Inr m" using amax_ok by blast
  have "m \<in> set (concat x_train)" using amax_props(1)[OF m] .
  with z have m0: "m = 0" by blast
  show "amax x_train = Inr 0" using m m0 by simp
  have zero: "\<forall>img \<in> set x_train. \<forall>p \<in> set img. p = 0"
    using z by (simp del: concat_eq_Nil_conv)
  have "map (map (\<lambda>p. true_divide fl p 0)) x_train = map (map (\<lambda>p. NaN)) x_train"
    using zero by (simp add: true_divide_def)
  then show "scale fl x_train x_train = Inr (map (map (\<lambda>p. NaN)) x_train)"
    using m m0 by (simp add: scale_value divide_arr_def)
  have "fp_error (true_divide fl p 0)" for p by (simp add: true_divide_def)
  then have "\<forall>v \<in> set (concat (divide_arr fl x_test 0)). fp_error v"
    unfolding set_concat_divide_arr by blast
  then show "\<exists>b. scale fl x_test x_train = Inr b \<and> (\<forall>v \<in> set (concat b). fp_error v)"
    using scale_value[OF m] m0 by blast
qed

theorem division_needs_positive_pixel_witness:
  "concat [[0, 0::nat]] \<noteq> [] \<and> list_all (\<lambda>p. p = 0) (concat [[0, 0::nat]]) \<and>
   amax [[0, 0]] = Inr 0 \<and>
   scale (\<lambda>q. q) [[0, 0]] [[0, 0]] = Inr [[NaN, NaN]] \<and>
   scale (\<lambda>q. q) [[3]] [[0, 0]] = Inr [[PosInf]] \<and>
   fp_error NaN \<and> fp_error PosInf \<and>
   (\<exists>p \<in> set (concat [[0, 2::nat]]). 0 < p) \<and>
   scale (\<lambda>q. q) [[0, 2]] [[0, 2]] = Inr [[Finite 0, Finite 1]] \<and>
   scale (\<lambda>q. q) [[3]] [[0, 2]] = Inr [[Finite (3 / 2)]] \<and>
   \<not> fp_error (Finite 0) \<and> \<not> fp_error (Finite 1) \<and> \<not> fp_error (Finite (3 / 2))"
proof -
  note t = division_needs_positive_pixel[of "\<lambda>q. q" "[[0, 0]]" "[[3]]"]
    division_needs_positive_pixel[of "\<lambda>q. q" "[[0, 2]]" "[[3]]"]
  have c: "concat [[0, 0::nat]] \<noteq> [] \<and> list_all (\<lambda>p. p = 0) (concat [[0, 0::nat]]) \<and>
      amax [[0, 0]] = Inr 0 \<and>
      scale (\<lambda>q. q) [[0, 0]] [[0, 0]] = Inr [[NaN, NaN]] \<and>
      scale (\<lambda>q. q) [[3]] [[0, 0]] = Inr [[PosInf]] \<and>
      fp_error NaN \<and> fp_error PosInf"
    by (simp add: scale_def amax_def bind_def divide_arr_def true_divide_def)
  have d: "(\<exists>p \<in> set (concat [[0, 2::nat]]). 0 < p) \<and>
      scale (\<lambda>q. q) [[0, 2]] [[0, 2]] = Inr [[Finite 0, Finite 1]] \<and>
      scale (\<lambda>q. q) [[3]] [[0, 2]] = Inr [[Finite (3 / 2)]] \<and>
      \<not> fp_error (Finite 0) \<and> \<not> fp_error (Finite 1) \<and> \<not> fp_error (Finite (3 / 2))"
    by (simp add: scale_def amax_def bind_def divide_arr_def true_divide_def)
  show ?thesis using t by (simp only: c d simp_thms)
qed

subsection \<open>The order of the steps\<close>

text \<open>
  Claim C2. Whatever the dataset and whatever the framework computes, the steps that the
  trace of a run goes through are an initial part of: load, normalise, one-hot encode,
  declare the layers, compile, fit, evaluate, visualise, save, each step in one block;
  and from the first evaluate or save event on, no fit event occurs. A run that
  completes goes through all nine steps: a fit event comes before the first evaluate or
  save event, and the save event is the last event that belongs to a step. On a dataset
  that is loadable in the sense above the run completes.
\<close>

theorem steps_in_order:
  "\<exists>t r. notebook fl fw ds [] = (t, r) \<and>
     prefix (steps t)
       [Load, Normalise, Encode, Declare, Compile_model, Train, Test, Visualise, Persist] \<and>
     list_all (\<lambda>e. step_of e \<noteq> Some Train)
       (dropWhile (\<lambda>e. step_of e \<noteq> Some Test \<and> step_of e \<noteq> Some Persist) t) \<and>
     (r = Inr () \<longrightarrow>
        steps t =
          [Load, Normalise, Encode, Declare, Compile_model, Train, Test, Visualise, Persist] \<and>
        (\<exists>e \<in> set (takeWhile (\<lambda>e. step_of e \<noteq> Some Test \<and> step_of e \<noteq> Some Persist) t).
           step_of e = Some Train) \<and>
        step_of (last (filter (\<lambda>e. step_of e \<noteq> None) t)) = Some Persist) \<and>
     (loadable ds \<longrightarrow> r = Inr ())"
proof -
  obtain x_train y_train x_test y_test where ds: "ds = ((x_train, y_train), (x_test, y_test))"
    by (metis surj_pair)
  define t where "t = fst (notebook fl fw ds [])"
  define r where "r = snd (notebook fl fw ds [])"
  have run: "notebook fl fw ds [] = (t, r)" by (simp add: t_def r_def)
  have main: "prefix (steps t)
       [Load, Normalise, Encode, Declare, Compile_model, Train, Test, Visualise, Persist] \<and>
     list_all (\<lambda>e. step_of e \<noteq> Some Train)
       (dropWhile (\<lambda>e. step_of e \<noteq> Some Test \<and> step_of e \<noteq> Some Persist) t) \<and>
     (r = Inr () \<longrightarrow>
        steps t =
          [Load, Normalise, Encode, Declare, Compile_model, Train, Test, Visualise, Persist] \<and>
        (\<exists>e \<in> set (takeWhile (\<lambda>e. step_of e \<noteq> Some Test \<and> step_of e \<noteq> Some Persist) t).
           step_of e = Some Train) \<and>
        step_of (last (filter (\<lambda>e. step_of e \<noteq> None) t)) = Some Persist) \<and>
     (loadable ds \<longrightarrow> r = Inr ())"
  proof (cases rule: notebook_cases[where x_train = x_train and y_train = y_train
        and x_test = x_test and y_test = y_test and fl = fl and fw = fw])
    case (no_pixels e)
    then show ?thesis unfolding t_def r_def ds
      by (simp add: steps_def List.map_filter_simps loadable_def trainable_def)
  next
    case (bad_train_labels e)
    then show ?thesis unfolding t_def r_def ds
      by (simp add: steps_def List.map_filter_simps loadable_def trainable_def)
  next
    case (bad_test_labels e)
    then show ?thesis unfolding t_def r_def ds
      by (simp add: steps_def List.map_filter_simps loadable_def trainable_def)
  next
    case (rejected e)
    then show ?thesis unfolding t_def r_def ds
      by (simp add: steps_def List.map_filter_simps loadable_def)
  next
    case (trained x_train_norm x_test_norm y_train_hot y_test_hot it history m1 m2 preds evs r')
    note vis = trained(8)
    show ?thesis unfolding t_def r_def ds trained(10)
      using trained(9)
      by (cases r')
        (simp_all add: steps_def List.map_filter_simps map_filter_append
          map_filter_visualise[OF vis] remdups_adj_block remdups_adj_block_end
          vis[unfolded list_all_iff] list_all_iff loadable_def)
  qed
  show ?thesis by (rule exI[of _ t], rule exI[of _ r], rule conjI[OF run main])
qed

theorem steps_in_order_witness:
  "loadable example_dataset \<and>
   (\<exists>t. notebook (\<lambda>q. q) example_framework example_dataset [] = (t, Inr ()) \<and>
      steps t = [Load, Normalise, Encode, Declare, Compile_model, Train, Test, Visualise, Persist])"
proof -
  from steps_in_order[of "\<lambda>q. q" example_framework example_dataset]
  obtain t r where "notebook (\<lambda>q. q) example_framework example_dataset [] = (t, r)"
    and "r = Inr () \<longrightarrow>
        steps t =
          [Load, Normalise, Encode, Declare, Compile_model, Train, Test, Visualise, Persist] \<and>
        (\<exists>e \<in> set (takeWhile (\<lambda>e. step_of e \<noteq> Some Test \<and> step_of e \<noteq> Some Persist) t).
           step_of e = Some Train) \<and>
        step_of (last (filter (\<lambda>e. step_of e \<noteq> None) t)) = Some Persist"
    and "loadable example_dataset \<longrightarrow> r = Inr ()"
    by (elim exE conjE)
  then show ?thesis using loadable_example by (intro conjI exI[of _ t]) simp_all
qed

subsection \<open>One-hot labels\<close>

text \<open>
  Claim C4. \<open>to_categorical\<close> with ten classes maps every vector of labels \<open>c\<close> with
  \<open>0 \<le> c < 10\<close> to a matrix with one row per label, each row of length 10 with a 1 at
  index \<open>c\<close> and 0 elsewhere. In a run of the notebook both label arrays are replaced by
  these matrices: whenever \<open>fit\<close> is reached, the iterator it receives holds the matrix of
  \<open>y_train\<close>, and the validation data and \<open>evaluate\<close> receive the matrix of \<open>y_test\<close>, each
  with one row per label. The two encoding statements complete on every encodable
  dataset, and \<open>fit\<close> is reached on every trainable one.
\<close>

theorem one_hot_encoding:
  "(\<forall>y. (\<forall>c \<in> set y. 0 \<le> c \<and> c < 10) \<longrightarrow>
      (\<exists>rows. to_categorical y num_classes = Inr rows \<and> length rows = length y \<and>
         (\<forall>i < length y. length (rows ! i) = 10 \<and>
            (\<forall>j < 10. rows ! i ! j = (if int j = y ! i then Finite 1 else Finite 0))))) \<and>
   (\<exists>t r. notebook fl fw ((x_train, y_train), (x_test, y_test)) [] = (t, r) \<and>
      (filter (\<lambda>e. step_of e = Some Train) t = [] \<or>
       (\<exists>y_train_hot y_test_hot m it n x_val cbs m' x'.
          to_categorical y_train num_classes = Inr y_train_hot \<and>
          to_categorical y_test num_classes = Inr y_test_hot \<and>
          length y_train_hot = length y_train \<and> length y_test_hot = length y_test \<and>
          filter (\<lambda>e. step_of e = Some Train) t = [Fit m it n (x_val, y_test_hot) cbs] \<and>
          it_y it = y_train_hot \<and>
          filter (\<lambda>e. step_of e = Some Test) t = [Evaluate m' x' y_test_hot])) \<and>
      (encodable ((x_train, y_train), (x_test, y_test)) \<longrightarrow>
         filter (\<lambda>e. step_of e = Some Encode) t = [One_hot ''y_train'', One_hot ''y_test'']) \<and>
      (trainable ((x_train, y_train), (x_test, y_test)) \<longrightarrow>
         filter (\<lambda>e. step_of e = Some Train) t \<noteq> []))"
proof (intro conjI allI impI)
  fix y :: "int list" assume "\<forall>c \<in> set y. 0 \<le> c \<and> c < 10"
  then show "\<exists>rows. to_categorical y num_classes = Inr rows \<and> length rows = length y \<and>
         (\<forall>i < length y. length (rows ! i) = 10 \<and>
            (\<forall>j < 10. rows ! i ! j = (if int j = y ! i then Finite 1 else Finite 0)))"
    by (rule one_hot_entries)
next
  define t where "t = fst (notebook fl fw ((x_train, y_train), (x_test, y_test)) [])"
  define r where "r = snd (notebook fl fw ((x_train, y_train), (x_test, y_test)) [])"
  have run: "notebook fl fw ((x_train, y_train), (x_test, y_test)) [] = (t, r)"
    by (simp add: t_def r_def)
  have main: "(filter (\<lambda>e. step_of e = Some Train) t = [] \<or>
       (\<exists>y_train_hot y_test_hot m it n x_val cbs m' x'.
          to_categorical y_train num_classes = Inr y_train_hot \<and>
          to_categorical y_test num_classes = Inr y_test_hot \<and>
          length y_train_hot = length y_train \<and> length y_test_hot = length y_test \<and>
          filter (\<lambda>e. step_of e = Some Train) t = [Fit m it n (x_val, y_test_hot) cbs] \<and>
          it_y it = y_train_hot \<and>
          filter (\<lambda>e. step_of e = Some Test) t = [Evaluate m' x' y_test_hot])) \<and>
      (encodable ((x_train, y_train), (x_test, y_test)) \<longrightarrow>
         filter (\<lambda>e. step_of e = Some Encode) t = [One_hot ''y_train'', One_hot ''y_test'']) \<and>
      (trainable ((x_train, y_train), (x_test, y_test)) \<longrightarrow>
         filter (\<lambda>e. step_of e = Some Train) t \<noteq> [])"
  proof (cases rule: notebook_cases[where x_train = x_train and y_train = y_train
        and x_test = x_test and y_test = y_test and fl = fl and fw = fw])
    case (no_pixels e)
    then show ?thesis unfolding t_def by (simp add: trainable_def)
  next
    case (bad_train_labels e)
    then show ?thesis unfolding t_def by (simp add: trainable_def)
  next
    case (bad_test_labels e)
    then show ?thesis unfolding t_def by (simp add: trainable_def)
  next
    case (rejected e)
    then show ?thesis unfolding t_def by simp
  next
    case (trained x_train_norm x_test_norm y_train_hot y_test_hot it history m1 m2 preds evs r')
    note vis = trained(8)
    have ft: "filter (\<lambda>e. step_of e = Some Train) t =
        [Fit m1 it 14 (x_test_norm, y_test_hot) [tb_log]]"
      unfolding t_def trained(10) by (simp add: filter_step_visualise[OF vis])
    have fe: "filter (\<lambda>e. step_of e = Some Test) t = [Evaluate m2 x_test_norm y_test_hot]"
      unfolding t_def trained(10) by (simp add: filter_step_visualise[OF vis])
    have fo: "filter (\<lambda>e. step_of e = Some Encode) t = [One_hot ''y_train'', One_hot ''y_test'']"
      unfolding t_def trained(10) by (simp add: filter_step_visualise[OF vis])
    have iy: "it_y it = y_train_hot" using flow_ok(1)[OF trained(6)] by simp
    have la: "length y_train_hot = length y_train"
      and lb: "length y_test_hot = length y_test"
      using to_categorical_complete[OF trained(4)] to_categorical_complete[OF trained(5)]
      by simp_all
    have "to_categorical y_train num_classes = Inr y_train_hot \<and>
          to_categorical y_test num_classes = Inr y_test_hot \<and>
          length y_train_hot = length y_train \<and> length y_test_hot = length y_test \<and>
          filter (\<lambda>e. step_of e = Some Train) t =
            [Fit m1 it 14 (x_test_norm, y_test_hot) [tb_log]] \<and>
          it_y it = y_train_hot \<and>
          filter (\<lambda>e. step_of e = Some Test) t = [Evaluate m2 x_test_norm y_test_hot]"
      using trained(4,5) la lb ft iy fe by (simp only: simp_thms)
    then have "\<exists>y_train_hot y_test_hot m it n x_val cbs m' x'.
          to_categorical y_train num_classes = Inr y_train_hot \<and>
          to_categorical y_test num_classes = Inr y_test_hot \<and>
          length y_train_hot = length y_train \<and> length y_test_hot = length y_test \<and>
          filter (\<lambda>e. step_of e = Some Train) t = [Fit m it n (x_val, y_test_hot) cbs] \<and>
          it_y it = y_train_hot \<and>
          filter (\<lambda>e. step_of e = Some Test) t = [Evaluate m' x' y_test_hot]"
      by (intro exI)
    then show ?thesis using fo ft by (intro conjI disjI2 impI) simp_all
  qed
  show "\<exists>t r. notebook fl fw ((x_train, y_train), (x_test, y_test)) [] = (t, r) \<and>
      (filter (\<lambda>e. step_of e = Some Train) t = [] \<or>
       (\<exists>y_train_hot y_test_hot m it n x_val cbs m' x'.
          to_categorical y_train num_classes = Inr y_train_hot \<and>
          to_categorical y_test num_classes = Inr y_test_hot \<and>
          length y_train_hot = length y_train \<and> length y_test_hot = length y_test \<and>
          filter (\<lambda>e. step_of e = Some Train) t = [Fit m it n (x_val, y_test_hot) cbs] \<and>
          it_y it = y_train_hot \<and>
          filter (\<lambda>e. step_of e = Some Test) t = [Evaluate m' x' y_test_hot])) \<and>
      (encodable ((x_train, y_train), (x_test, y_test)) \<longrightarrow>
         filter (\<lambda>e. step_of e = Some Encode) t = [One_hot ''y_train'', One_hot ''y_test'']) \<and>
      (trainable ((x_train, y_train), (x_test, y_test)) \<longrightarrow>
         filter (\<lambda>e. step_of e = Some Train) t \<noteq> [])"
    by (rule exI[of _ t], rule exI[of _ r], rule conjI[OF run main])
qed

theorem one_hot_encoding_witness:
  "list_all (\<lambda>c. 0 \<le> c \<and> c < 10) [3, 0, 9::int] \<and>
   to_categorical [3, 0, 9] num_classes =
     Inr [map Finite [0, 0, 0, 1, 0, 0, 0, 0, 0, 0],
          map Finite [1, 0, 0, 0, 0, 0, 0, 0, 0, 0],
          map Finite [0, 0, 0, 0, 0, 0, 0, 0, 0, 1]] \<and>
   encodable example_dataset \<and> trainable example_dataset \<and>
   (\<exists>t r y_test_hot m it n x_val cbs.
      notebook (\<lambda>q. q) example_framework example_dataset [] = (t, r) \<and>
      filter (\<lambda>e. step_of e = Some Encode) t = [One_hot ''y_train'', One_hot ''y_test''] \<and>
      filter (\<lambda>e. step_of e = Some Train) t = [Fit m it n (x_val, y_test_hot) cbs] \<and>
      it_y it = [map Finite [0, 0, 0, 1, 0, 0, 0, 0, 0, 0]] \<and>
      length y_test_hot = 8954)"
proof -
  have h: "\<forall>c \<in> set [3, 0, 9::int]. 0 \<le> c \<and> c < 10" by simp
  note pure = one_hot_encoding[THEN conjunct1, THEN spec, THEN mp, OF h]
  have v: "to_categorical [3, 0, 9] num_classes =
     Inr [map Finite [0, 0, 0, 1, 0, 0, 0, 0, 0, 0],
          map Finite [1, 0, 0, 0, 0, 0, 0, 0, 0, 0],
          map Finite [0, 0, 0, 0, 0, 0, 0, 0, 0, 1]]"
    using pure by (simp add: to_categorical_def num_classes_def one_hot_3 one_hot_0 one_hot_9)
  from one_hot_encoding[THEN conjunct2, of "\<lambda>q. q" example_framework
      "\<lparr>dims = [32, 32, 3], images = [replicate 3072 255]\<rparr>" "[3]"
      "\<lparr>dims = [32, 32, 3], images = replicate 8954 (replicate 3072 7)\<rparr>"
      "replicate 8954 5", folded example_dataset_def]
  obtain t r where
    run: "notebook (\<lambda>q. q) example_framework example_dataset [] = (t, r)"
    and used: "filter (\<lambda>e. step_of e = Some Train) t = [] \<or>
       (\<exists>y_train_hot y_test_hot m it n x_val cbs m' x'.
          to_categorical [3] num_classes = Inr y_train_hot \<and>
          to_categorical (replicate 8954 5) num_classes = Inr y_test_hot \<and>
          length y_train_hot = length [3::int] \<and>
          length y_test_hot = length (replicate 8954 (5::int)) \<and>
          filter (\<lambda>e. step_of e = Some Train) t = [Fit m it n (x_val, y_test_hot) cbs] \<and>
          it_y it = y_train_hot \<and>
          filter (\<lambda>e. step_of e = Some Test) t = [Evaluate m' x' y_test_hot])"
    and enc: "encodable example_dataset \<longrightarrow>
         filter (\<lambda>e. step_of e = Some Encode) t = [One_hot ''y_train'', One_hot ''y_test'']"
    and reach: "trainable example_dataset \<longrightarrow> filter (\<lambda>e. step_of e = Some Train) t \<noteq> []"
    by (elim exE conjE)
  from reach trainable_example have "filter (\<lambda>e. step_of e = Some Train) t \<noteq> []" by simp
  with used obtain a b m it n x_val cbs where
    a: "to_categorical [3] num_classes = Inr a"
    and lb: "length b = length (replicate 8954 (5::int))"
    and f: "filter (\<lambda>e. step_of e = Some Train) t = [Fit m it n (x_val, b) cbs]"
    and i: "it_y it = a"
    by (elim disjE exE conjE) simp_all
  have "a = [map Finite [0, 0, 0, 1, 0, 0, 0, 0, 0, 0]]"
    using a by (simp add: to_categorical_def num_classes_def one_hot_3)
  then have i': "it_y it = [map Finite [0, 0, 0, 1, 0, 0, 0, 0, 0, 0]]" using i by simp
  have lb': "length b = 8954" using lb by simp
  have fo: "filter (\<lambda>e. step_of e = Some Encode) t = [One_hot ''y_train'', One_hot ''y_test'']"
    using enc encodable_example by simp
  have "notebook (\<lambda>q. q) example_framework example_dataset [] = (t, r) \<and>
      filter (\<lambda>e. step_of e = Some Encode) t = [One_hot ''y_train'', One_hot ''y_test''] \<and>
      filter (\<lambda>e. step_of e = Some Train) t = [Fit m it n (x_val, b) cbs] \<and>
      it_y it = [map Finite [0, 0, 0, 1, 0, 0, 0, 0, 0, 0]] \<and>
      length b = 8954"
    using run fo f i' lb' by (simp only: simp_thms)
  then have ex: "\<exists>t r y_test_hot m it n x_val cbs.
      notebook (\<lambda>q. q) example_framework example_dataset [] = (t, r) \<and>
      filter (\<lambda>e. step_of e = Some Encode) t = [One_hot ''y_train'', One_hot ''y_test''] \<and>
      filter (\<lambda>e. step_of e = Some Train) t = [Fit m it n (x_val, y_test_hot) cbs] \<and>
      it_y it = [map Finite [0, 0, 0, 1, 0, 0, 0, 0, 0, 0]] \<and>
      length y_test_hot = 8954"
    by (intro exI)
  have l: "list_all (\<lambda>c. 0 \<le> c \<and> c < 10) [3, 0, 9::int]" by simp
  show ?thesis using l v encodable_example trainable_example ex by (simp only: simp_thms)
qed

subsection \<open>The hyperparameters\<close>

text \<open>
  Claim C5. The batch size is 128 and the epoch count is 14, constants of the
  configuration cell. In every run the model is compiled at most once, and then with
  categorical crossentropy as loss, Adam at learning rate \<open>1e-5\<close> and the metrics accuracy,
  AUC, precision, recall in this order; \<open>fit\<close> is called at most once, and then on the
  model so compiled, still with 14 epochs and an iterator of batch size 128. The compile
  statement is reached on every encodable dataset, the call of \<open>fit\<close> completes on every
  trainable one.
\<close>

theorem hyperparameters_are_constants:
  "batch_size = 128 \<and> epochs = 14 \<and>
   (\<exists>t r. notebook fl fw ds [] = (t, r) \<and>
      (filter (\<lambda>e. step_of e = Some Compile_model) t = [] \<or>
       (\<exists>m. filter (\<lambda>e. step_of e = Some Compile_model) t = [Compile m] \<and>
          compiled m = Some \<lparr>cfg_loss = Categorical_crossentropy,
            cfg_optimizer = Adam (1 / 10 ^ 5),
            cfg_metrics = [Accuracy, AUC, Precision, Recall]\<rparr>)) \<and>
      (filter (\<lambda>e. step_of e = Some Train) t = [] \<or>
       (\<exists>m it val cbs. filter (\<lambda>e. step_of e = Some Compile_model) t = [Compile m] \<and>
          filter (\<lambda>e. step_of e = Some Train) t = [Fit m it 14 val cbs] \<and>
          it_batch_size it = 128)) \<and>
      (encodable ds \<longrightarrow> filter (\<lambda>e. step_of e = Some Compile_model) t \<noteq> []) \<and>
      (trainable ds \<longrightarrow> filter (\<lambda>e. step_of e = Some Train) t \<noteq> []))"
proof (intro conjI)
  show "batch_size = 128" by (simp add: batch_size_def)
  show "epochs = 14" by (simp add: epochs_def)
  obtain x_train y_train x_test y_test where ds: "ds = ((x_train, y_train), (x_test, y_test))"
    by (metis surj_pair)
  define t where "t = fst (notebook fl fw ds [])"
  define r where "r = snd (notebook fl fw ds [])"
  have run: "notebook fl fw ds [] = (t, r)" by (simp add: t_def r_def)
  have main: "(filter (\<lambda>e. step_of e = Some Compile_model) t = [] \<or>
       (\<exists>m. filter (\<lambda>e. step_of e = Some Compile_model) t = [Compile m] \<and>
          compiled m = Some \<lparr>cfg_loss = Categorical_crossentropy,
            cfg_optimizer = Adam (1 / 10 ^ 5),
            cfg_metrics = [Accuracy, AUC, Precision, Recall]\<rparr>)) \<and>
      (filter (\<lambda>e. step_of e = Some Train) t = [] \<or>
       (\<exists>m it val cbs. filter (\<lambda>e. step_of e = Some Compile_model) t = [Compile m] \<and>
          filter (\<lambda>e. step_of e = Some Train) t = [Fit m it 14 val cbs] \<and>
          it_batch_size it = 128)) \<and>
      (encodable ds \<longrightarrow> filter (\<lambda>e. step_of e = Some Compile_model) t \<noteq> []) \<and>
      (trainable ds \<longrightarrow> filter (\<lambda>e. step_of e = Some Train) t \<noteq> [])"
  proof (cases rule: notebook_cases[where x_train = x_train and y_train = y_train
        and x_test = x_test and y_test = y_test and fl = fl and fw = fw])
    case (no_pixels e)
    then show ?thesis unfolding t_def ds by (simp add: trainable_def)
  next
    case (bad_train_labels e)
    then show ?thesis unfolding t_def ds by (simp add: trainable_def)
  next
    case (bad_test_labels e)
    then show ?thesis unfolding t_def ds by (simp add: trainable_def)
  next
    case (rejected e)
    then show ?thesis unfolding t_def ds by simp
  next
    case (trained x_train_norm x_test_norm y_train_hot y_test_hot it history m1 m2 preds evs r')
    note vis = trained(8)
    have fc: "filter (\<lambda>e. step_of e = Some Compile_model) t = [Compile m1]"
      unfolding t_def ds trained(10) by (simp add: filter_step_visualise[OF vis])
    have ft: "filter (\<lambda>e. step_of e = Some Train) t =
        [Fit m1 it 14 (x_test_norm, y_test_hot) [tb_log]]"
      unfolding t_def ds trained(10) by (simp add: filter_step_visualise[OF vis])
    have cm: "compiled m1 = Some \<lparr>cfg_loss = Categorical_crossentropy,
            cfg_optimizer = Adam (1 / 10 ^ 5),
            cfg_metrics = [Accuracy, AUC, Precision, Recall]\<rparr>"
      by (simp add: trained(1))
    have ib: "it_batch_size it = 128"
      using flow_ok(1)[OF trained(6)] by (simp add: batch_size_def)
    have e1: "\<exists>m. filter (\<lambda>e. step_of e = Some Compile_model) t = [Compile m] \<and>
          compiled m = Some \<lparr>cfg_loss = Categorical_crossentropy,
            cfg_optimizer = Adam (1 / 10 ^ 5),
            cfg_metrics = [Accuracy, AUC, Precision, Recall]\<rparr>"
      using conjI[OF fc cm] by (intro exI)
    have "filter (\<lambda>e. step_of e = Some Compile_model) t = [Compile m1] \<and>
          filter (\<lambda>e. step_of e = Some Train) t =
            [Fit m1 it 14 (x_test_norm, y_test_hot) [tb_log]] \<and>
          it_batch_size it = 128"
      using fc ft ib by (simp only: simp_thms)
    then have e2: "\<exists>m it val cbs.
          filter (\<lambda>e. step_of e = Some Compile_model) t = [Compile m] \<and>
          filter (\<lambda>e. step_of e = Some Train) t = [Fit m it 14 val cbs] \<and>
          it_batch_size it = 128"
      by (intro exI)
    have n1: "filter (\<lambda>e. step_of e = Some Compile_model) t \<noteq> []" using fc by simp
    have n2: "filter (\<lambda>e. step_of e = Some Train) t \<noteq> []" using ft by simp
    show ?thesis using e1 e2 n1 n2 by (simp only: simp_thms)
  qed
  show "\<exists>t r. notebook fl fw ds [] = (t, r) \<and>
      (filter (\<lambda>e. step_of e = Some Compile_model) t = [] \<or>
       (\<exists>m. filter (\<lambda>e. step_of e = Some Compile_model) t = [Compile m] \<and>
          compiled m = Some \<lparr>cfg_loss = Categorical_crossentropy,
            cfg_optimizer = Adam (1 / 10 ^ 5),
            cfg_metrics = [Accuracy, AUC, Precision, Recall]\<rparr>)) \<and>
      (filter (\<lambda>e. step_of e = Some Train) t = [] \<or>
       (\<exists>m it val cbs. filter (\<lambda>e. step_of e = Some Compile_model) t = [Compile m] \<and>
          filter (\<lambda>e. step_of e = Some Train) t = [Fit m it 14 val cbs] \<and>
          it_batch_size it = 128)) \<and>
      (encodable ds \<longrightarrow> filter (\<lambda>e. step_of e = Some Compile_model) t \<noteq> []) \<and>
      (trainable ds \<longrightarrow> filter (\<lambda>e. step_of e = Some Train) t \<noteq> [])"
    by (rule exI[of _ t], rule exI[of _ r], rule conjI[OF run main])
qed

theorem hyperparameters_are_constants_witness:
  "encodable example_dataset \<and> trainable example_dataset \<and>
   (\<exists>t r m it val cbs.
      notebook (\<lambda>q. q) example_framework example_dataset [] = (t, r) \<and>
      filter (\<lambda>e. step_of e = Some Compile_model) t = [Compile m] \<and>
      filter (\<lambda>e. step_of e = Some Train) t = [Fit m it 14 val cbs] \<and>
      it_batch_size it = 128 \<and>
      map_option cfg_optimizer (compiled m) = Some (Adam (1 / 100000)))"
proof -
  from hyperparameters_are_constants[of "\<lambda>q. q" example_framework example_dataset]
  obtain t r where
    run: "notebook (\<lambda>q. q) example_framework example_dataset [] = (t, r)"
    and c: "filter (\<lambda>e. step_of e = Some Compile_model) t = [] \<or>
       (\<exists>m. filter (\<lambda>e. step_of e = Some Compile_model) t = [Compile m] \<and>
          compiled m = Some \<lparr>cfg_loss = Categorical_crossentropy,
            cfg_optimizer = Adam (1 / 10 ^ 5),
            cfg_metrics = [Accuracy, AUC, Precision, Recall]\<rparr>)"
    and f: "filter (\<lambda>e. step_of e = Some Train) t = [] \<or>
       (\<exists>m it val cbs. filter (\<lambda>e. step_of e = Some Compile_model) t = [Compile m] \<and>
          filter (\<lambda>e. step_of e = Some Train) t = [Fit m it 14 val cbs] \<and>
          it_batch_size it = 128)"
    and rc: "encodable example_dataset \<longrightarrow>
        filter (\<lambda>e. step_of e = Some Compile_model) t \<noteq> []"
    and rf: "trainable example_dataset \<longrightarrow> filter (\<lambda>e. step_of e = Some Train) t \<noteq> []"
    by (elim exE conjE)
  from rf trainable_example have "filter (\<lambda>e. step_of e = Some Train) t \<noteq> []" by simp
  with f obtain m it val cbs where
    c': "filter (\<lambda>e. step_of e = Some Compile_model) t = [Compile m]"
    and f': "filter (\<lambda>e. step_of e = Some Train) t = [Fit m it 14 val cbs]"
    and b: "it_batch_size it = 128"
    by (elim disjE exE conjE) simp_all
  from rc encodable_example have "filter (\<lambda>e. step_of e = Some Compile_model) t \<noteq> []"
    by simp
  with c c' have "compiled m = Some \<lparr>cfg_loss = Categorical_crossentropy,
            cfg_optimizer = Adam (1 / 10 ^ 5),
            cfg_metrics = [Accuracy, AUC, Precision, Recall]\<rparr>"
    by (elim disjE exE conjE) simp_all
  then have o: "map_option cfg_optimizer (compiled m) = Some (Adam (1 / 100000))"
    by simp
  have "notebook (\<lambda>q. q) example_framework example_dataset [] = (t, r) \<and>
      filter (\<lambda>e. step_of e = Some Compile_model) t = [Compile m] \<and>
      filter (\<lambda>e. step_of e = Some Train) t = [Fit m it 14 val cbs] \<and>
      it_batch_size it = 128 \<and>
      map_option cfg_optimizer (compiled m) = Some (Adam (1 / 100000))"
    using run c' f' b o by (simp only: simp_thms)
  then have ex: "\<exists>t r m it val cbs.
      notebook (\<lambda>q. q) example_framework example_dataset [] = (t, r) \<and>
      filter (\<lambda>e. step_of e = Some Compile_model) t = [Compile m] \<and>
      filter (\<lambda>e. step_of e = Some Train) t = [Fit m it 14 val cbs] \<and>
      it_batch_size it = 128 \<and>
      map_option cfg_optimizer (compiled m) = Some (Adam (1 / 100000))"
    by (intro exI)
  show ?thesis using encodable_example trainable_example ex by (simp only: simp_thms)
qed

subsection \<open>The training call\<close>

text \<open>
  Claim C6. In every run \<open>fit\<close> is called at most once, and then on the compiled and so
  far untrained model, with the iterator that \<open>datagen.flow\<close> builds over the normalised
  training images and the one-hot training labels (rotation range 20, width and height
  shift range 0.2, horizontal flips, batch size 128), for 14 epochs, with the normalised
  test images and the one-hot test labels as validation data, and with the TensorBoard
  callback. The images it receives are the quotients by the training maximum, not the
  raw pixels. The call returns the model trained for exactly 14 epochs, which is the
  model that \<open>evaluate\<close> receives, and a history that holds 14 values under each of the
  five reported names and under each of their \<open>val_\<close> names. On every trainable dataset
  the call completes.
\<close>

theorem training_call:
  "\<exists>t r. notebook fl fw ((x_train, y_train), (x_test, y_test)) [] = (t, r) \<and>
     (filter (\<lambda>e. step_of e = Some Train) t = [] \<or>
      (\<exists>m x_train_norm x_test_norm y_train_hot y_test_hot history m'.
         scale_array fl x_train x_train = Inr x_train_norm \<and>
         scale_array fl x_test x_train = Inr x_test_norm \<and>
         to_categorical y_train num_classes = Inr y_train_hot \<and>
         to_categorical y_test num_classes = Inr y_test_hot \<and>
         filter (\<lambda>e. step_of e = Some Train) t =
           [Fit m
              \<lparr>it_generator = \<lparr>rotation_range = 20, width_shift_range = 2 / 10,
                  height_shift_range = 2 / 10, horizontal_flip = True\<rparr>,
                it_x = x_train_norm, it_y = y_train_hot, it_batch_size = 128\<rparr>
              14 (x_test_norm, y_test_hot) [TensorBoard ''./logs'' 10 True True]] \<and>
         compiled m \<noteq> None \<and> epochs_trained m = 0 \<and>
         fit fw m
              \<lparr>it_generator = \<lparr>rotation_range = 20, width_shift_range = 2 / 10,
                  height_shift_range = 2 / 10, horizontal_flip = True\<rparr>,
                it_x = x_train_norm, it_y = y_train_hot, it_batch_size = 128\<rparr>
              14 (x_test_norm, y_test_hot) [TensorBoard ''./logs'' 10 True True] =
           Inr (history, m') \<and>
         epochs_trained m' = 14 \<and> layers m' = layers m \<and> compiled m' = compiled m \<and>
         map (\<lambda>key. map_option length (history key))
           [''loss'', ''accuracy'', ''auc'', ''precision'', ''recall'',
            ''val_loss'', ''val_accuracy'', ''val_auc'', ''val_precision'', ''val_recall''] =
           replicate 10 (Some 14) \<and>
         filter (\<lambda>e. step_of e = Some Test) t = [Evaluate m' x_test_norm y_test_hot])) \<and>
     (trainable ((x_train, y_train), (x_test, y_test)) \<longrightarrow>
        filter (\<lambda>e. step_of e = Some Train) t \<noteq> [])"
proof -
  define t where "t = fst (notebook fl fw ((x_train, y_train), (x_test, y_test)) [])"
  define r where "r = snd (notebook fl fw ((x_train, y_train), (x_test, y_test)) [])"
  have run: "notebook fl fw ((x_train, y_train), (x_test, y_test)) [] = (t, r)"
    by (simp add: t_def r_def)
  have main: "(filter (\<lambda>e. step_of e = Some Train) t = [] \<or>
      (\<exists>m x_train_norm x_test_norm y_train_hot y_test_hot history m'.
         scale_array fl x_train x_train = Inr x_train_norm \<and>
         scale_array fl x_test x_train = Inr x_test_norm \<and>
         to_categorical y_train num_classes = Inr y_train_hot \<and>
         to_categorical y_test num_classes = Inr y_test_hot \<and>
         filter (\<lambda>e. step_of e = Some Train) t =
           [Fit m
              \<lparr>it_generator = \<lparr>rotation_range = 20, width_shift_range = 2 / 10,
                  height_shift_range = 2 / 10, horizontal_flip = True\<rparr>,
                it_x = x_train_norm, it_y = y_train_hot, it_batch_size = 128\<rparr>
              14 (x_test_norm, y_test_hot) [TensorBoard ''./logs'' 10 True True]] \<and>
         compiled m \<noteq> None \<and> epochs_trained m = 0 \<and>
         fit fw m
              \<lparr>it_generator = \<lparr>rotation_range = 20, width_shift_range = 2 / 10,
                  height_shift_range = 2 / 10, horizontal_flip = True\<rparr>,
                it_x = x_train_norm, it_y = y_train_hot, it_batch_size = 128\<rparr>
              14 (x_test_norm, y_test_hot) [TensorBoard ''./logs'' 10 True True] =
           Inr (history, m') \<and>
         epochs_trained m' = 14 \<and> layers m' = layers m \<and> compiled m' = compiled m \<and>
         map (\<lambda>key. map_option length (history key))
           [''loss'', ''accuracy'', ''auc'', ''precision'', ''recall'',
            ''val_loss'', ''val_accuracy'', ''val_auc'', ''val_precision'', ''val_recall''] =
           replicate 10 (Some 14) \<and>
         filter (\<lambda>e. step_of e = Some Test) t = [Evaluate m' x_test_norm y_test_hot])) \<and>
     (trainable ((x_train, y_train), (x_test, y_test)) \<longrightarrow>
        filter (\<lambda>e. step_of e = Some Train) t \<noteq> [])"
  proof (cases rule: notebook_cases[where x_train = x_train and y_train = y_train
        and x_test = x_test and y_test = y_test and fl = fl and fw = fw])
    case (no_pixels e)
    then show ?thesis unfolding t_def by (simp add: trainable_def)
  next
    case (bad_train_labels e)
    then show ?thesis unfolding t_def by (simp add: trainable_def)
  next
    case (bad_test_labels e)
    then show ?thesis unfolding t_def by (simp add: trainable_def)
  next
    case (rejected e)
    then show ?thesis unfolding t_def by simp
  next
    case (trained x_train_norm x_test_norm y_train_hot y_test_hot it history m1 m2 preds evs r')
    note vis = trained(8)
    let ?it = "\<lparr>it_generator = \<lparr>rotation_range = 20, width_shift_range = 2 / 10,
                  height_shift_range = 2 / 10, horizontal_flip = True\<rparr>,
                it_x = x_train_norm, it_y = y_train_hot, it_batch_size = 128\<rparr>"
    have it_eq: "it = ?it"
      using flow_ok(1)[OF trained(6)] by (simp add: datagen_def batch_size_def)
    have tb: "tb_log = TensorBoard ''./logs'' 10 True True" by (simp add: tb_log_def)
    have ft: "filter (\<lambda>e. step_of e = Some Train) t =
        [Fit m1 ?it 14 (x_test_norm, y_test_hot) [TensorBoard ''./logs'' 10 True True]]"
      unfolding t_def trained(10) it_eq tb by (simp add: filter_step_visualise[OF vis])
    have fe: "filter (\<lambda>e. step_of e = Some Test) t = [Evaluate m2 x_test_norm y_test_hot]"
      unfolding t_def trained(10) by (simp add: filter_step_visualise[OF vis])
    have fit14: "fit fw m1 ?it 14 (x_test_norm, y_test_hot)
        [TensorBoard ''./logs'' 10 True True] = Inr (history, m2)"
      using trained(7) unfolding it_eq tb epochs_def .
    have c1: "compiled m1 \<noteq> None" and e1: "epochs_trained m1 = 0"
      by (simp_all add: trained(1))
    have m2: "m2 = m1\<lparr>epochs_trained := epochs_trained m1 + 14\<rparr>"
      using fit_ok(5)[OF fit14] .
    have e2: "epochs_trained m2 = 14" and l2: "layers m2 = layers m1"
      and c2: "compiled m2 = compiled m1"
      unfolding m2 by (simp_all add: e1)
    have h: "history = map_of (concat (map (\<lambda>q.
                  [(quantity_name q, map (fw_history fw m1 ?it (quantity_name q)) [0..<14]),
                   (''val_'' @ quantity_name q,
                    map (fw_history fw m1 ?it (''val_'' @ quantity_name q)) [0..<14])])
                (reported \<lparr>cfg_loss = Categorical_crossentropy,
               cfg_optimizer = Adam (1 / 100000),
               cfg_metrics = [Accuracy, AUC, Precision, Recall]\<rparr>)))"
      by (rule fit_history[OF fit14]) (simp add: trained(1))
    have hl: "map (\<lambda>key. map_option length (history key))
           [''loss'', ''accuracy'', ''auc'', ''precision'', ''recall'',
            ''val_loss'', ''val_accuracy'', ''val_auc'', ''val_precision'', ''val_recall''] =
           replicate 10 (Some 14)"
      unfolding h by (simp add: reported_def eval_nat_numeral)
    have "scale_array fl x_train x_train = Inr x_train_norm \<and>
         scale_array fl x_test x_train = Inr x_test_norm \<and>
         to_categorical y_train num_classes = Inr y_train_hot \<and>
         to_categorical y_test num_classes = Inr y_test_hot \<and>
         filter (\<lambda>e. step_of e = Some Train) t =
           [Fit m1 ?it 14 (x_test_norm, y_test_hot) [TensorBoard ''./logs'' 10 True True]] \<and>
         compiled m1 \<noteq> None \<and> epochs_trained m1 = 0 \<and>
         fit fw m1 ?it 14 (x_test_norm, y_test_hot) [TensorBoard ''./logs'' 10 True True] =
           Inr (history, m2) \<and>
         epochs_trained m2 = 14 \<and> layers m2 = layers m1 \<and> compiled m2 = compiled m1 \<and>
         map (\<lambda>key. map_option length (history key))
           [''loss'', ''accuracy'', ''auc'', ''precision'', ''recall'',
            ''val_loss'', ''val_accuracy'', ''val_auc'', ''val_precision'', ''val_recall''] =
           replicate 10 (Some 14) \<and>
         filter (\<lambda>e. step_of e = Some Test) t = [Evaluate m2 x_test_norm y_test_hot]"
      using trained(2-5) ft c1 e1 fit14 e2 l2 c2 hl fe by (simp only: simp_thms)
    then have ex: "\<exists>m x_train_norm x_test_norm y_train_hot y_test_hot history m'.
         scale_array fl x_train x_train = Inr x_train_norm \<and>
         scale_array fl x_test x_train = Inr x_test_norm \<and>
         to_categorical y_train num_classes = Inr y_train_hot \<and>
         to_categorical y_test num_classes = Inr y_test_hot \<and>
         filter (\<lambda>e. step_of e = Some Train) t =
           [Fit m
              \<lparr>it_generator = \<lparr>rotation_range = 20, width_shift_range = 2 / 10,
                  height_shift_range = 2 / 10, horizontal_flip = True\<rparr>,
                it_x = x_train_norm, it_y = y_train_hot, it_batch_size = 128\<rparr>
              14 (x_test_norm, y_test_hot) [TensorBoard ''./logs'' 10 True True]] \<and>
         compiled m \<noteq> None \<and> epochs_trained m = 0 \<and>
         fit fw m
              \<lparr>it_generator = \<lparr>rotation_range = 20, width_shift_range = 2 / 10,
                  height_shift_range = 2 / 10, horizontal_flip = True\<rparr>,
                it_x = x_train_norm, it_y = y_train_hot, it_batch_size = 128\<rparr>
              14 (x_test_norm, y_test_hot) [TensorBoard ''./logs'' 10 True True] =
           Inr (history, m') \<and>
         epochs_trained m' = 14 \<and> layers m' = layers m \<and> compiled m' = compiled m \<and>
         map (\<lambda>key. map_option length (history key))
           [''loss'', ''accuracy'', ''auc'', ''precision'', ''recall'',
            ''val_loss'', ''val_accuracy'', ''val_auc'', ''val_precision'', ''val_recall''] =
           replicate 10 (Some 14) \<and>
         filter (\<lambda>e. step_of e = Some Test) t = [Evaluate m' x_test_norm y_test_hot]"
      by (intro exI)
    have ne: "filter (\<lambda>e. step_of e = Some Train) t \<noteq> []" using ft by simp
    show ?thesis using ex ne by (simp only: simp_thms)
  qed
  show ?thesis by (rule exI[of _ t], rule exI[of _ r], rule conjI[OF run main])
qed

theorem training_call_witness:
  "trainable example_dataset \<and>
   (\<exists>t r m x_val y_val history m'.
      notebook (\<lambda>q. q) example_framework example_dataset [] = (t, r) \<and>
      filter (\<lambda>e. step_of e = Some Train) t =
       [Fit m
          \<lparr>it_generator = \<lparr>rotation_range = 20, width_shift_range = 2 / 10,
              height_shift_range = 2 / 10, horizontal_flip = True\<rparr>,
            it_x = \<lparr>dims = [32, 32, 3], images = [replicate 3072 (Finite 1)]\<rparr>,
            it_y = [map Finite [0, 0, 0, 1, 0, 0, 0, 0, 0, 0]],
            it_batch_size = 128\<rparr>
          14 (x_val, y_val) [TensorBoard ''./logs'' 10 True True]] \<and>
      fit example_framework m
          \<lparr>it_generator = \<lparr>rotation_range = 20, width_shift_range = 2 / 10,
              height_shift_range = 2 / 10, horizontal_flip = True\<rparr>,
            it_x = \<lparr>dims = [32, 32, 3], images = [replicate 3072 (Finite 1)]\<rparr>,
            it_y = [map Finite [0, 0, 0, 1, 0, 0, 0, 0, 0, 0]],
            it_batch_size = 128\<rparr>
          14 (x_val, y_val) [TensorBoard ''./logs'' 10 True True] = Inr (history, m') \<and>
      epochs_trained m' = 14 \<and>
      map_option length (history ''loss'') = Some 14 \<and>
      filter (\<lambda>e. step_of e = Some Test) t = [Evaluate m' x_val y_val])"
proof -
  from training_call[of "\<lambda>q. q" example_framework
      "\<lparr>dims = [32, 32, 3], images = [replicate 3072 255]\<rparr>" "[3]"
      "\<lparr>dims = [32, 32, 3], images = replicate 8954 (replicate 3072 7)\<rparr>"
      "replicate 8954 5", folded example_dataset_def]
  obtain t r where
    run: "notebook (\<lambda>q. q) example_framework example_dataset [] = (t, r)"
    and used: "filter (\<lambda>e. step_of e = Some Train) t = [] \<or>
      (\<exists>m x_train_norm x_test_norm y_train_hot y_test_hot history m'.
         scale_array (\<lambda>q. q) \<lparr>dims = [32, 32, 3], images = [replicate 3072 255]\<rparr>
           \<lparr>dims = [32, 32, 3], images = [replicate 3072 255]\<rparr> = Inr x_train_norm \<and>
         scale_array (\<lambda>q. q)
           \<lparr>dims = [32, 32, 3], images = replicate 8954 (replicate 3072 7)\<rparr>
           \<lparr>dims = [32, 32, 3], images = [replicate 3072 255]\<rparr> = Inr x_test_norm \<and>
         to_categorical [3] num_classes = Inr y_train_hot \<and>
         to_categorical (replicate 8954 5) num_classes = Inr y_test_hot \<and>
         filter (\<lambda>e. step_of e = Some Train) t =
           [Fit m
              \<lparr>it_generator = \<lparr>rotation_range = 20, width_shift_range = 2 / 10,
                  height_shift_range = 2 / 10, horizontal_flip = True\<rparr>,
                it_x = x_train_norm, it_y = y_train_hot, it_batch_size = 128\<rparr>
              14 (x_test_norm, y_test_hot) [TensorBoard ''./logs'' 10 True True]] \<and>
         compiled m \<noteq> None \<and> epochs_trained m = 0 \<and>
         fit example_framework m
              \<lparr>it_generator = \<lparr>rotation_range = 20, width_shift_range = 2 / 10,
                  height_shift_range = 2 / 10, horizontal_flip = True\<rparr>,
                it_x = x_train_norm, it_y = y_train_hot, it_batch_size = 128\<rparr>
              14 (x_test_norm, y_test_hot) [TensorBoard ''./logs'' 10 True True] =
           Inr (history, m') \<and>
         epochs_trained m' = 14 \<and> layers m' = layers m \<and> compiled m' = compiled m \<and>
         map (\<lambda>key. map_option length (history key))
           [''loss'', ''accuracy'', ''auc'', ''precision'', ''recall'',
            ''val_loss'', ''val_accuracy'', ''val_auc'', ''val_precision'', ''val_recall''] =
           replicate 10 (Some 14) \<and>
         filter (\<lambda>e. step_of e = Some Test) t = [Evaluate m' x_test_norm y_test_hot])"
    and reach: "trainable example_dataset \<longrightarrow> filter (\<lambda>e. step_of e = Some Train) t \<noteq> []"
    by (elim exE conjE)
  from reach trainable_example have "filter (\<lambda>e. step_of e = Some Train) t \<noteq> []" by simp
  with used obtain m a b c d h m' where
    a: "scale_array (\<lambda>q. q) \<lparr>dims = [32, 32, 3], images = [replicate 3072 255]\<rparr>
           \<lparr>dims = [32, 32, 3], images = [replicate 3072 255]\<rparr> = Inr a"
    and c: "to_categorical [3] num_classes = Inr c"
    and f: "filter (\<lambda>e. step_of e = Some Train) t =
           [Fit m
              \<lparr>it_generator = \<lparr>rotation_range = 20, width_shift_range = 2 / 10,
                  height_shift_range = 2 / 10, horizontal_flip = True\<rparr>,
                it_x = a, it_y = c, it_batch_size = 128\<rparr>
              14 (b, d) [TensorBoard ''./logs'' 10 True True]]"
    and ft: "fit example_framework m
              \<lparr>it_generator = \<lparr>rotation_range = 20, width_shift_range = 2 / 10,
                  height_shift_range = 2 / 10, horizontal_flip = True\<rparr>,
                it_x = a, it_y = c, it_batch_size = 128\<rparr>
              14 (b, d) [TensorBoard ''./logs'' 10 True True] = Inr (h, m')"
    and e: "epochs_trained m' = 14"
    and hl: "map (\<lambda>key. map_option length (h key))
           [''loss'', ''accuracy'', ''auc'', ''precision'', ''recall'',
            ''val_loss'', ''val_accuracy'', ''val_auc'', ''val_precision'', ''val_recall''] =
           replicate 10 (Some 14)"
    and fe: "filter (\<lambda>e. step_of e = Some Test) t = [Evaluate m' b d]"
    by (elim disjE exE conjE) simp_all
  have a': "a = \<lparr>dims = [32, 32, 3], images = [replicate 3072 (Finite 1)]\<rparr>"
    using a by (simp add: scale_array_example)
  have c': "c = [map Finite [0, 0, 0, 1, 0, 0, 0, 0, 0, 0]]"
    using c by (simp add: to_categorical_def num_classes_def one_hot_3)
  have hl': "map_option length (h ''loss'') = Some 14"
    using hl by (simp add: eval_nat_numeral)
  have "notebook (\<lambda>q. q) example_framework example_dataset [] = (t, r) \<and>
      filter (\<lambda>e. step_of e = Some Train) t =
       [Fit m
          \<lparr>it_generator = \<lparr>rotation_range = 20, width_shift_range = 2 / 10,
              height_shift_range = 2 / 10, horizontal_flip = True\<rparr>,
            it_x = \<lparr>dims = [32, 32, 3], images = [replicate 3072 (Finite 1)]\<rparr>,
            it_y = [map Finite [0, 0, 0, 1, 0, 0, 0, 0, 0, 0]],
            it_batch_size = 128\<rparr>
          14 (b, d) [TensorBoard ''./logs'' 10 True True]] \<and>
      fit example_framework m
          \<lparr>it_generator = \<lparr>rotation_range = 20, width_shift_range = 2 / 10,
              height_shift_range = 2 / 10, horizontal_flip = True\<rparr>,
            it_x = \<lparr>dims = [32, 32, 3], images = [replicate 3072 (Finite 1)]\<rparr>,
            it_y = [map Finite [0, 0, 0, 1, 0, 0, 0, 0, 0, 0]],
            it_batch_size = 128\<rparr>
          14 (b, d) [TensorBoard ''./logs'' 10 True True] = Inr (h, m') \<and>
      epochs_trained m' = 14 \<and>
      map_option length (h ''loss'') = Some 14 \<and>
      filter (\<lambda>e. step_of e = Some Test) t = [Evaluate m' b d]"
    using run f[unfolded a' c'] ft[unfolded a' c'] e hl' fe by (simp only: simp_thms)
  then have ex: "\<exists>t r m x_val y_val history m'.
      notebook (\<lambda>q. q) example_framework example_dataset [] = (t, r) \<and>
      filter (\<lambda>e. step_of e = Some Train) t =
       [Fit m
          \<lparr>it_generator = \<lparr>rotation_range = 20, width_shift_range = 2 / 10,
              height_shift_range = 2 / 10, horizontal_flip = True\<rparr>,
            it_x = \<lparr>dims = [32, 32, 3], images = [replicate 3072 (Finite 1)]\<rparr>,
            it_y = [map Finite [0, 0, 0, 1, 0, 0, 0, 0, 0, 0]],
            it_batch_size = 128\<rparr>
          14 (x_val, y_val) [TensorBoard ''./logs'' 10 True True]] \<and>
      fit example_framework m
          \<lparr>it_generator = \<lparr>rotation_range = 20, width_shift_range = 2 / 10,
              height_shift_range = 2 / 10, horizontal_flip = True\<rparr>,
            it_x = \<lparr>dims = [32, 32, 3], images = [replicate 3072 (Finite 1)]\<rparr>,
            it_y = [map Finite [0, 0, 0, 1, 0, 0, 0, 0, 0, 0]],
            it_batch_size = 128\<rparr>
          14 (x_val, y_val) [TensorBoard ''./logs'' 10 True True] = Inr (history, m') \<and>
      epochs_trained m' = 14 \<and>
      map_option length (history ''loss'') = Some 14 \<and>
      filter (\<lambda>e. step_of e = Some Test) t = [Evaluate m' x_val y_val]"
    by (intro exI)
  show ?thesis using trainable_example ex by (simp only: simp_thms)
qed

subsection \<open>The evaluation scores\<close>

text \<open>
  Claim C7. In every run \<open>evaluate\<close> is called at most once, and then on the model trained
  for 14 epochs, with the normalised test images and the one-hot test labels. Its result
  has exactly five entries: the loss, then accuracy, AUC, precision and recall, the
  order in which \<open>compile\<close> received the metrics. The five print statements that follow
  label entry 0 as the loss, entry 1 as the accuracy, entry 2 as the AUC, entry 3 as the
  precision and entry 4 as the recall. On every trainable dataset the call completes.
\<close>

theorem evaluation_scores:
  "\<exists>t r. notebook fl fw ((x_train, y_train), (x_test, y_test)) [] = (t, r) \<and>
     (filter (\<lambda>e. step_of e = Some Test) t = [] \<or>
      (\<exists>m x y score.
         scale_array fl x_test x_train = Inr x \<and>
         to_categorical y_test num_classes = Inr y \<and>
         filter (\<lambda>e. step_of e = Some Test) t = [Evaluate m x y] \<and>
         epochs_trained m = 14 \<and>
         map_option cfg_metrics (compiled m) = Some [Accuracy, AUC, Precision, Recall] \<and>
         evaluate fw m x y = Inr score \<and>
         length score = 5 \<and>
         score = map (fw_evaluate fw m x y)
           [Loss, Metric Accuracy, Metric AUC, Metric Precision, Metric Recall] \<and>
         take 6 (dropWhile (\<lambda>e. step_of e \<noteq> Some Test) t) =
           [Evaluate m x y,
            Print [PStr ''Test loss:'', PNum (score ! 0)],
            Print [PStr ''Test accuracy:'', PNum (score ! 1)],
            Print [PStr ''Test AUC:'', PNum (score ! 2)],
            Print [PStr ''Test Precision:'', PNum (score ! 3)],
            Print [PStr ''Test Recall:'', PNum (score ! 4)]])) \<and>
     (trainable ((x_train, y_train), (x_test, y_test)) \<longrightarrow>
        filter (\<lambda>e. step_of e = Some Test) t \<noteq> [])"
proof -
  define t where "t = fst (notebook fl fw ((x_train, y_train), (x_test, y_test)) [])"
  define r where "r = snd (notebook fl fw ((x_train, y_train), (x_test, y_test)) [])"
  have run: "notebook fl fw ((x_train, y_train), (x_test, y_test)) [] = (t, r)"
    by (simp add: t_def r_def)
  have main: "(filter (\<lambda>e. step_of e = Some Test) t = [] \<or>
      (\<exists>m x y score.
         scale_array fl x_test x_train = Inr x \<and>
         to_categorical y_test num_classes = Inr y \<and>
         filter (\<lambda>e. step_of e = Some Test) t = [Evaluate m x y] \<and>
         epochs_trained m = 14 \<and>
         map_option cfg_metrics (compiled m) = Some [Accuracy, AUC, Precision, Recall] \<and>
         evaluate fw m x y = Inr score \<and>
         length score = 5 \<and>
         score = map (fw_evaluate fw m x y)
           [Loss, Metric Accuracy, Metric AUC, Metric Precision, Metric Recall] \<and>
         take 6 (dropWhile (\<lambda>e. step_of e \<noteq> Some Test) t) =
           [Evaluate m x y,
            Print [PStr ''Test loss:'', PNum (score ! 0)],
            Print [PStr ''Test accuracy:'', PNum (score ! 1)],
            Print [PStr ''Test AUC:'', PNum (score ! 2)],
            Print [PStr ''Test Precision:'', PNum (score ! 3)],
            Print [PStr ''Test Recall:'', PNum (score ! 4)]])) \<and>
     (trainable ((x_train, y_train), (x_test, y_test)) \<longrightarrow>
        filter (\<lambda>e. step_of e = Some Test) t \<noteq> [])"
  proof (cases rule: notebook_cases[where x_train = x_train and y_train = y_train
        and x_test = x_test and y_test = y_test and fl = fl and fw = fw])
    case (no_pixels e)
    then show ?thesis unfolding t_def by (simp add: trainable_def)
  next
    case (bad_train_labels e)
    then show ?thesis unfolding t_def by (simp add: trainable_def)
  next
    case (bad_test_labels e)
    then show ?thesis unfolding t_def by (simp add: trainable_def)
  next
    case (rejected e)
    then show ?thesis unfolding t_def by simp
  next
    case (trained x_train_norm x_test_norm y_train_hot y_test_hot it history m1 m2 preds evs r')
    note vis = trained(8)
    let ?score = "map (fw_evaluate fw m2 x_test_norm y_test_hot)
           [Loss, Metric Accuracy, Metric AUC, Metric Precision, Metric Recall]"
    have fe: "filter (\<lambda>e. step_of e = Some Test) t = [Evaluate m2 x_test_norm y_test_hot]"
      unfolding t_def trained(10) by (simp add: filter_step_visualise[OF vis])
    have m2: "m2 = m1\<lparr>epochs_trained := epochs_trained m1 + epochs\<rparr>"
      using fit_ok(5)[OF trained(7)] .
    have e2: "epochs_trained m2 = 14"
      and c2: "map_option cfg_metrics (compiled m2) = Some [Accuracy, AUC, Precision, Recall]"
      unfolding m2 by (simp_all add: trained(1) epochs_def)
    have ev: "evaluate fw m2 x_test_norm y_test_hot = Inr ?score"
      using evaluate_after_fit[OF trained(7), of "\<lparr>cfg_loss = Categorical_crossentropy,
               cfg_optimizer = Adam (1 / 100000),
               cfg_metrics = [Accuracy, AUC, Precision, Recall]\<rparr>"]
      by (simp add: trained(1) reported_def)
    have ln: "length ?score = 5" by simp
    have tk: "take 6 (dropWhile (\<lambda>e. step_of e \<noteq> Some Test) t) =
           [Evaluate m2 x_test_norm y_test_hot,
            Print [PStr ''Test loss:'', PNum (?score ! 0)],
            Print [PStr ''Test accuracy:'', PNum (?score ! 1)],
            Print [PStr ''Test AUC:'', PNum (?score ! 2)],
            Print [PStr ''Test Precision:'', PNum (?score ! 3)],
            Print [PStr ''Test Recall:'', PNum (?score ! 4)]]"
      unfolding t_def trained(10) by simp
    have "scale_array fl x_test x_train = Inr x_test_norm \<and>
         to_categorical y_test num_classes = Inr y_test_hot \<and>
         filter (\<lambda>e. step_of e = Some Test) t = [Evaluate m2 x_test_norm y_test_hot] \<and>
         epochs_trained m2 = 14 \<and>
         map_option cfg_metrics (compiled m2) = Some [Accuracy, AUC, Precision, Recall] \<and>
         evaluate fw m2 x_test_norm y_test_hot = Inr ?score \<and>
         length ?score = 5 \<and>
         ?score = map (fw_evaluate fw m2 x_test_norm y_test_hot)
           [Loss, Metric Accuracy, Metric AUC, Metric Precision, Metric Recall] \<and>
         take 6 (dropWhile (\<lambda>e. step_of e \<noteq> Some Test) t) =
           [Evaluate m2 x_test_norm y_test_hot,
            Print [PStr ''Test loss:'', PNum (?score ! 0)],
            Print [PStr ''Test accuracy:'', PNum (?score ! 1)],
            Print [PStr ''Test AUC:'', PNum (?score ! 2)],
            Print [PStr ''Test Precision:'', PNum (?score ! 3)],
            Print [PStr ''Test Recall:'', PNum (?score ! 4)]]"
      using trained(3,5) fe e2 c2 ev ln tk by (simp only: simp_thms)
    then have ex: "\<exists>m x y score.
         scale_array fl x_test x_train = Inr x \<and>
         to_categorical y_test num_classes = Inr y \<and>
         filter (\<lambda>e. step_of e = Some Test) t = [Evaluate m x y] \<and>
         epochs_trained m = 14 \<and>
         map_option cfg_metrics (compiled m) = Some [Accuracy, AUC, Precision, Recall] \<and>
         evaluate fw m x y = Inr score \<and>
         length score = 5 \<and>
         score = map (fw_evaluate fw m x y)
           [Loss, Metric Accuracy, Metric AUC, Metric Precision, Metric Recall] \<and>
         take 6 (dropWhile (\<lambda>e. step_of e \<noteq> Some Test) t) =
           [Evaluate m x y,
            Print [PStr ''Test loss:'', PNum (score ! 0)],
            Print [PStr ''Test accuracy:'', PNum (score ! 1)],
            Print [PStr ''Test AUC:'', PNum (score ! 2)],
            Print [PStr ''Test Precision:'', PNum (score ! 3)],
            Print [PStr ''Test Recall:'', PNum (score ! 4)]]"
      by (intro exI)
    have ne: "filter (\<lambda>e. step_of e = Some Test) t \<noteq> []" using fe by simp
    show ?thesis using ex ne by (simp only: simp_thms)
  qed
  show ?thesis by (rule exI[of _ t], rule exI[of _ r], rule conjI[OF run main])
qed

theorem evaluation_scores_witness:
  "trainable example_dataset \<and>
   (\<exists>t r m x y score.
      notebook (\<lambda>q. q) example_framework example_dataset [] = (t, r) \<and>
      filter (\<lambda>e. step_of e = Some Test) t = [Evaluate m x y] \<and>
      evaluate example_framework m x y = Inr score \<and>
      score = replicate 5 (Finite 0) \<and>
      take 2 (dropWhile (\<lambda>e. step_of e \<noteq> Some Test) t) =
        [Evaluate m x y, Print [PStr ''Test loss:'', PNum (Finite 0)]])"
proof -
  from evaluation_scores[of "\<lambda>q. q" example_framework
      "\<lparr>dims = [32, 32, 3], images = [replicate 3072 255]\<rparr>" "[3]"
      "\<lparr>dims = [32, 32, 3], images = replicate 8954 (replicate 3072 7)\<rparr>"
      "replicate 8954 5", folded example_dataset_def]
  obtain t r where
    run: "notebook (\<lambda>q. q) example_framework example_dataset [] = (t, r)"
    and used: "filter (\<lambda>e. step_of e = Some Test) t = [] \<or>
      (\<exists>m x y score.
         scale_array (\<lambda>q. q)
           \<lparr>dims = [32, 32, 3], images = replicate 8954 (replicate 3072 7)\<rparr>
           \<lparr>dims = [32, 32, 3], images = [replicate 3072 255]\<rparr> = Inr x \<and>
         to_categorical (replicate 8954 5) num_classes = Inr y \<and>
         filter (\<lambda>e. step_of e = Some Test) t = [Evaluate m x y] \<and>
         epochs_trained m = 14 \<and>
         map_option cfg_metrics (compiled m) = Some [Accuracy, AUC, Precision, Recall] \<and>
         evaluate example_framework m x y = Inr score \<and>
         length score = 5 \<and>
         score = map (fw_evaluate example_framework m x y)
           [Loss, Metric Accuracy, Metric AUC, Metric Precision, Metric Recall] \<and>
         take 6 (dropWhile (\<lambda>e. step_of e \<noteq> Some Test) t) =
           [Evaluate m x y,
            Print [PStr ''Test loss:'', PNum (score ! 0)],
            Print [PStr ''Test accuracy:'', PNum (score ! 1)],
            Print [PStr ''Test AUC:'', PNum (score ! 2)],
            Print [PStr ''Test Precision:'', PNum (score ! 3)],
            Print [PStr ''Test Recall:'', PNum (score ! 4)]])"
    and reach: "trainable example_dataset \<longrightarrow> filter (\<lambda>e. step_of e = Some Test) t \<noteq> []"
    by (elim exE conjE)
  from reach trainable_example have "filter (\<lambda>e. step_of e = Some Test) t \<noteq> []" by simp
  with used obtain m x y score where
    f: "filter (\<lambda>e. step_of e = Some Test) t = [Evaluate m x y]"
    and ev: "evaluate example_framework m x y = Inr score"
    and sc: "score = map (fw_evaluate example_framework m x y)
           [Loss, Metric Accuracy, Metric AUC, Metric Precision, Metric Recall]"
    and tk: "take 6 (dropWhile (\<lambda>e. step_of e \<noteq> Some Test) t) =
           [Evaluate m x y,
            Print [PStr ''Test loss:'', PNum (score ! 0)],
            Print [PStr ''Test accuracy:'', PNum (score ! 1)],
            Print [PStr ''Test AUC:'', PNum (score ! 2)],
            Print [PStr ''Test Precision:'', PNum (score ! 3)],
            Print [PStr ''Test Recall:'', PNum (score ! 4)]]"
    by (elim disjE exE conjE) simp_all
  have sc': "score = replicate 5 (Finite 0)"
    unfolding sc by (simp add: example_framework_def eval_nat_numeral)
  have "take 2 (take 6 (dropWhile (\<lambda>e. step_of e \<noteq> Some Test) t)) =
      [Evaluate m x y, Print [PStr ''Test loss:'', PNum (Finite 0)]]"
    unfolding tk sc' by (simp add: eval_nat_numeral)
  then have tk': "take 2 (dropWhile (\<lambda>e. step_of e \<noteq> Some Test) t) =
      [Evaluate m x y, Print [PStr ''Test loss:'', PNum (Finite 0)]]"
    by simp
  have "notebook (\<lambda>q. q) example_framework example_dataset [] = (t, r) \<and>
      filter (\<lambda>e. step_of e = Some Test) t = [Evaluate m x y] \<and>
      evaluate example_framework m x y = Inr score \<and>
      score = replicate 5 (Finite 0) \<and>
      take 2 (dropWhile (\<lambda>e. step_of e \<noteq> Some Test) t) =
        [Evaluate m x y, Print [PStr ''Test loss:'', PNum (Finite 0)]]"
    using run f ev sc' tk' by (simp only: simp_thms)
  then have ex: "\<exists>t r m x y score.
      notebook (\<lambda>q. q) example_framework example_dataset [] = (t, r) \<and>
      filter (\<lambda>e. step_of e = Some Test) t = [Evaluate m x y] \<and>
      evaluate example_framework m x y = Inr score \<and>
      score = replicate 5 (Finite 0) \<and>
      take 2 (dropWhile (\<lambda>e. step_of e \<noteq> Some Test) t) =
        [Evaluate m x y, Print [PStr ''Test loss:'', PNum (Finite 0)]]"
    by (intro exI)
  show ?thesis using trainable_example ex by (simp only: simp_thms)
qed

subsection \<open>Arg-max of a one-hot row\<close>

text \<open>
  Claim C9. For every class index \<open>c\<close> below 10 the arg-max of the one-hot row of \<open>c\<close> is
  \<open>c\<close>. The list \<open>labels\<close> has ten entries. Hence, for test labels between 0 and 9,
  \<open>y_test[n].argmax()\<close> in the plotting loop is the original label of sample \<open>n\<close> and
  indexes \<open>labels\<close> within range; and for every model with the declared layers the
  arg-max of the prediction for one image is defined, is below 10, and indexes \<open>labels\<close>
  within range.
\<close>

theorem argmax_recovers_label:
  "(\<forall>c < 10. \<exists>row. to_categorical [int c] num_classes = Inr [row] \<and> argmax row = Inr c) \<and>
   length labels = 10 \<and>
   ((\<forall>c \<in> set y_test. 0 \<le> c \<and> c < 10) \<and> n < length y_test \<longrightarrow>
      (\<exists>rows label. to_categorical y_test num_classes = Inr rows \<and>
         bind (getitem rows n) argmax = Inr label \<and> int label = y_test ! n \<and>
         label < length labels \<and> getitem labels label = Inr (labels ! label))) \<and>
   (\<forall>m::keras_model. (\<exists>m0. model = Inr m0 \<and> layers m = layers m0) \<longrightarrow>
      (\<exists>k. bind (predict fw m [img]) (\<lambda>p. argmax (concat p)) = Inr k \<and>
         k < length labels \<and> getitem labels k = Inr (labels ! k)))"
proof (intro conjI allI impI)
  fix c :: nat assume c: "c < 10"
  have "to_categorical [int c] num_classes = Inr [(replicate 10 (Finite 0))[c := Finite 1]]"
    using c one_hot_rows[of "[int c]"] by simp
  then show "\<exists>row. to_categorical [int c] num_classes = Inr [row] \<and> argmax row = Inr c"
    using argmax_one_hot[OF c] by simp
next
  show "length labels = 10" by (rule length_labels)
next
  assume a: "(\<forall>c \<in> set y_test. 0 \<le> c \<and> c < 10) \<and> n < length y_test"
  then have r: "to_categorical y_test num_classes =
      Inr (map (\<lambda>c. (replicate 10 (Finite 0))[nat c := Finite 1]) y_test)"
    using one_hot_rows by blast
  from a have b: "0 \<le> y_test ! n" "y_test ! n < 10" by simp_all
  then have lt: "nat (y_test ! n) < 10" by simp
  have "bind (getitem (map (\<lambda>c. (replicate 10 (Finite 0))[nat c := Finite 1]) y_test) n) argmax =
      Inr (nat (y_test ! n))"
    using a argmax_one_hot[OF lt] by (simp add: getitem_def bind_def)
  then show "\<exists>rows label. to_categorical y_test num_classes = Inr rows \<and>
         bind (getitem rows n) argmax = Inr label \<and> int label = y_test ! n \<and>
         label < length labels \<and> getitem labels label = Inr (labels ! label)"
    using r b lt by (simp add: getitem_def length_labels)
next
  fix m :: keras_model assume "\<exists>m0. model = Inr m0 \<and> layers m = layers m0"
  then have "layers m = layer15" by (auto simp: model_value)
  then have sh: "infer_shape (layers m) [] = Inr [10]" by (simp add: infer_shape_model)
  let ?p = "map (fw_predict fw m img) [0..<10]"
  obtain k where k: "argmax ?p = Inr k" "k < length ?p"
    using argmax_nonempty[of ?p] by auto
  then show "\<exists>k. bind (predict fw m [img]) (\<lambda>p. argmax (concat p)) = Inr k \<and>
         k < length labels \<and> getitem labels k = Inr (labels ! k)"
    by (simp add: predict_value[OF sh] bind_def getitem_def length_labels)
qed

theorem argmax_recovers_label_witness:
  "list_all (\<lambda>c. 0 \<le> c \<and> c < 10) [3, 7::int] \<and> (1::nat) < length [3, 7::int] \<and>
   (\<exists>rows label. to_categorical [3, 7] num_classes = Inr rows \<and>
      bind (getitem rows 1) argmax = Inr label \<and> label = 7 \<and>
      getitem labels label = Inr ''horse'')"
proof -
  have h: "(\<forall>c \<in> set [3, 7::int]. 0 \<le> c \<and> c < 10) \<and> (1::nat) < length [3, 7::int]" by simp
  from argmax_recovers_label[THEN conjunct2, THEN conjunct2, THEN conjunct1, THEN mp, OF h]
  obtain rows label where r: "to_categorical [3, 7] num_classes = Inr rows"
    and l: "bind (getitem rows 1) argmax = Inr label"
    and e: "int label = [3, 7] ! 1"
    and g: "getitem labels label = Inr (labels ! label)"
    by (elim exE conjE)
  from e have l7: "label = 7" by simp
  have "labels ! 7 = ''horse''" by (simp add: labels_def)
  then have "getitem labels label = Inr ''horse''" using g l7 by simp
  then show ?thesis using r l l7 by (intro conjI exI) simp_all
qed

end
